theory Spec2Isabelle
  imports Main "HOL-Library.Word"
begin

section \<open>Cache metadata and the freshness model (package cache)\<close>

text \<open>
  The build targets \<^verbatim>\<open>GOARCH=amd64\<close>, so Go's \<^verbatim>\<open>int\<close> is a 64-bit two's
  complement integer; \<^verbatim>\<open>int64\<close> and \<^verbatim>\<open>time.Duration\<close> are 64-bit as well.
  They are modelled as \<open>64 word\<close>, read through \<open>sint\<close> where the code compares them.
\<close>

type_synonym go_int = "64 word"
type_synonym Duration = "64 word"

text \<open>
  An instant (\<^verbatim>\<open>time.Time\<close>) is the number of nanoseconds since the Unix epoch.
  \<^verbatim>\<open>time.Time\<close> stores 64-bit seconds plus nanoseconds, which covers every instant
  that RFC 3339 can write, so instants are unbounded integers here.
\<close>

type_synonym Time = int

record Meta =
  ETag :: string
  LastModified :: string
  CachedAt :: string
  TTL :: go_int
  Size :: "64 word"
  Neg :: bool

text \<open>\<^verbatim>\<open>time.Second\<close>: one second in nanoseconds.\<close>

definition Second :: Duration where
  "Second = 1000000000"

definition minDuration :: int where
  "minDuration = - (2 ^ 63)"

definition maxDuration :: int where
  "maxDuration = 2 ^ 63 - 1"

text \<open>
  \<^verbatim>\<open>t.Sub(u)\<close> of package time: the difference as a Duration, and the smallest or
  largest Duration when the difference does not fit 64 bits.
\<close>

definition Sub :: "Time \<Rightarrow> Time \<Rightarrow> Duration" where
  "Sub t u =
     (if t - u < minDuration then word_of_int minDuration
      else if maxDuration < t - u then word_of_int maxDuration
      else word_of_int (t - u))"

text \<open>
  \<^verbatim>\<open>time.Since(t)\<close> is \<^verbatim>\<open>time.Now().Sub(t)\<close>; the clock reading \<open>now\<close> is
  an argument of the model.
\<close>

definition Since :: "Time \<Rightarrow> Time \<Rightarrow> Duration" where
  "Since now t = Sub now t"

text \<open>
  \<^verbatim>\<open>IsFresh\<close> and \<^verbatim>\<open>IsNegativeFresh\<close>. The parser
  \<^verbatim>\<open>time.Parse(time.RFC3339Nano, _)\<close> belongs to Go's standard library and is the
  argument \<open>parse\<close> (\<open>None\<close> when it returns an error). The product
  \<^verbatim>\<open>time.Duration(ttl)*time.Second\<close> is a 64-bit multiplication and wraps around.
\<close>

definition IsFresh :: "(string \<Rightarrow> Time option) \<Rightarrow> Time \<Rightarrow> Meta \<Rightarrow> go_int \<Rightarrow> bool" where
  "IsFresh parse now m defaultTTL =
     (if Neg m then False
      else
        let ttl = (if sint (TTL m) \<le> 0 then defaultTTL else TTL m) in
        if CachedAt m = [] then False
        else
          (case parse (CachedAt m) of
             None \<Rightarrow> False
           | Some t \<Rightarrow> sint (Since now t) < sint (ttl * Second)))"

definition IsNegativeFresh :: "(string \<Rightarrow> Time option) \<Rightarrow> Time \<Rightarrow> Meta \<Rightarrow> go_int \<Rightarrow> bool" where
  "IsNegativeFresh parse now m ttl404 =
     (if \<not> Neg m \<or> CachedAt m = [] then False
      else
        (case parse (CachedAt m) of
           None \<Rightarrow> False
         | Some t \<Rightarrow>
             let ttl = (if sint (TTL m) \<le> 0 then ttl404 else TTL m) in
             sint (Since now t) < sint (ttl * Second)))"

section \<open>Key derivation (package cache)\<close>

text \<open>
  The loop \<^verbatim>\<open>for len(route) > 0 && route[0] == '/' { route = route[1:] }\<close> that opens
  both \<^verbatim>\<open>ObjectKey\<close> and \<^verbatim>\<open>MetaKey\<close>.
\<close>

fun trimSlashes :: "string \<Rightarrow> string" where
  "trimSlashes [] = []"
| "trimSlashes (c # cs) = (if c = CHR ''/'' then trimSlashes cs else c # cs)"

definition ObjectKey :: "string \<Rightarrow> string \<Rightarrow> string" where
  "ObjectKey domain route = ''objects/'' @ domain @ ''/'' @ trimSlashes route"

definition MetaKey :: "string \<Rightarrow> string \<Rightarrow> string" where
  "MetaKey domain route = ''meta/'' @ domain @ ''/'' @ trimSlashes route @ ''.json''"

text \<open>
  The effective TTL in the words of the specification: \<^verbatim>\<open>Meta.ttlSeconds\<close> if
  positive, else the caller-supplied default. It is used to state the freshness claims
  and is compared below with what \<open>IsFresh\<close> computes.
\<close>

definition effectiveTTL :: "Meta \<Rightarrow> go_int \<Rightarrow> go_int" where
  "effectiveTTL m d = (if 0 < sint (TTL m) then TTL m else d)"

section \<open>The object store and the upstream origin (external collaborators)\<close>

text \<open>
  The handler reaches the store through five calls (\<^verbatim>\<open>HasObject\<close>, \<^verbatim>\<open>GetObject\<close>,
  \<^verbatim>\<open>PutObject\<close>, \<^verbatim>\<open>ReadMeta\<close>, \<^verbatim>\<open>WriteMeta\<close>). The store is modelled by its
  contract: a map from object keys to stored objects and a map from metadata keys to
  \<open>Meta\<close> records. An object carries the bytes that were put and the header map that
  \<^verbatim>\<open>GetObject\<close> reports for it.
\<close>

record object =
  bytes :: string
  ohdrs :: "(string \<times> string) list"

text \<open>
  Every call that leaves the process is recorded, in order, in a trace: the store calls
  with their keys and the upstream fetch with its URL and its conditional headers
  (\<^verbatim>\<open>If-None-Match\<close>, \<^verbatim>\<open>If-Modified-Since\<close>; empty when the header is not set).
\<close>

datatype event =
    EvHasObject string
  | EvGetObject string
  | EvReadMeta string
  | EvPutObject string string string
  | EvWriteMeta string Meta
  | EvFetch string string string

record world =
  objects :: "string \<rightharpoonup> object"
  metas :: "string \<rightharpoonup> Meta"
  trace :: "event list"

text \<open>An upstream response: status code, \<^verbatim>\<open>Header.Get\<close>, and what
  \<^verbatim>\<open>io.ReadAll(resp.Body)\<close> returns (\<open>Inl\<close> its error, \<open>Inr\<close> the bytes).\<close>

record Response =
  StatusCode :: int
  Header :: "string \<Rightarrow> string"
  Body :: "string + string"

text \<open>
  What the world outside the handler does during one request. Call sites are named by
  their line in the handler's source file, so that each store call can fail and each
  clock reading can differ independently of the others:
  \<^item> \<open>fails l\<close>: the error, if any, that the store call at line \<open>l\<close> returns;
  \<^item> \<open>clock l\<close>: what \<^verbatim>\<open>time.Now()\<close> returns to the call at line \<open>l\<close>;
  \<^item> \<open>parseTime\<close>, \<open>formatTime\<close>: \<^verbatim>\<open>time.Parse\<close> and \<^verbatim>\<open>Format\<close> with the
    layout \<^verbatim>\<open>time.RFC3339Nano\<close>;
  \<^item> \<open>newRequest url\<close>: whether \<^verbatim>\<open>http.NewRequestWithContext\<close> accepts the URL (it
    returns a nil request otherwise);
  \<^item> \<open>roundTrip url inm ims\<close>: what \<^verbatim>\<open>Client.Do\<close> returns, \<open>Inl\<close> a transport error;
  \<^item> \<open>stat data ct\<close>: the header map the store reports for an object put with these
    bytes and this content type.
\<close>

record env =
  fails :: "nat \<Rightarrow> string option"
  clock :: "nat \<Rightarrow> Time"
  parseTime :: "string \<Rightarrow> Time option"
  formatTime :: "Time \<Rightarrow> string"
  newRequest :: "string \<Rightarrow> bool"
  roundTrip :: "string \<Rightarrow> string \<Rightarrow> string \<Rightarrow> string + Response"
  stat :: "string \<Rightarrow> string \<Rightarrow> (string \<times> string) list"

text \<open>\<^verbatim>\<open>NowISO\<close>, called at line \<open>l\<close>.\<close>

definition NowISO :: "env \<Rightarrow> nat \<Rightarrow> string" where
  "NowISO e l = formatTime e (clock e l)"

text \<open>The zero value of \<^verbatim>\<open>cache.Meta\<close>.\<close>

definition zeroMeta :: Meta where
  "zeroMeta = \<lparr>ETag = [], LastModified = [], CachedAt = [], TTL = 0, Size = 0, Neg = False\<rparr>"

definition logged :: "event \<Rightarrow> world \<Rightarrow> world" where
  "logged ev w = w\<lparr>trace := trace w @ [ev]\<rparr>"

text \<open>
  The store calls, each at call site \<open>l\<close>. A call that fails leaves the store as it
  was. \<^verbatim>\<open>HasObject\<close> and \<^verbatim>\<open>ReadMeta\<close> report a missing key as absent, without error.
\<close>

definition HasObject :: "env \<Rightarrow> nat \<Rightarrow> string \<Rightarrow> world \<Rightarrow> (bool \<times> string option) \<times> world" where
  "HasObject e l key w =
     ((case fails e l of
         Some err \<Rightarrow> (False, Some err)
       | None \<Rightarrow> (case objects w key of None \<Rightarrow> (False, None) | Some ob \<Rightarrow> (True, None))),
      logged (EvHasObject key) w)"

definition GetObject ::
  "env \<Rightarrow> nat \<Rightarrow> string \<Rightarrow> world \<Rightarrow> (string + string \<times> int \<times> (string \<times> string) list) \<times> world" where
  "GetObject e l key w =
     ((case fails e l of
         Some err \<Rightarrow> Inl err
       | None \<Rightarrow>
           (case objects w key of
              None \<Rightarrow> Inl ''NoSuchKey''
            | Some ob \<Rightarrow> Inr (bytes ob, int (length (bytes ob)), ohdrs ob))),
      logged (EvGetObject key) w)"

definition PutObject ::
  "env \<Rightarrow> nat \<Rightarrow> string \<Rightarrow> string \<Rightarrow> string \<Rightarrow> world \<Rightarrow> string option \<times> world" where
  "PutObject e l key data ct w =
     (case fails e l of
        Some err \<Rightarrow> (Some err, logged (EvPutObject key data ct) w)
      | None \<Rightarrow>
          (None, logged (EvPutObject key data ct)
             (w\<lparr>objects := (objects w)(key \<mapsto> \<lparr>bytes = data, ohdrs = stat e data ct\<rparr>)\<rparr>)))"

definition ReadMeta ::
  "env \<Rightarrow> nat \<Rightarrow> string \<Rightarrow> world \<Rightarrow> (Meta \<times> bool \<times> string option) \<times> world" where
  "ReadMeta e l key w =
     ((case fails e l of
         Some err \<Rightarrow> (zeroMeta, False, Some err)
       | None \<Rightarrow>
           (case metas w key of
              None \<Rightarrow> (zeroMeta, False, None)
            | Some m \<Rightarrow> (m, True, None))),
      logged (EvReadMeta key) w)"

definition WriteMeta :: "env \<Rightarrow> nat \<Rightarrow> string \<Rightarrow> Meta \<Rightarrow> world \<Rightarrow> string option \<times> world" where
  "WriteMeta e l key m w =
     (case fails e l of
        Some err \<Rightarrow> (Some err, logged (EvWriteMeta key m) w)
      | None \<Rightarrow> (None, logged (EvWriteMeta key m) (w\<lparr>metas := (metas w)(key \<mapsto> m)\<rparr>)))"

section \<open>The request handler (package server)\<close>

text \<open>What the handler wrote to its \<^verbatim>\<open>http.ResponseWriter\<close>.\<close>

record reply =
  code :: int
  hdr :: "(string \<times> string) list"
  payload :: string

text \<open>\<^verbatim>\<open>w.Header().Set(k, v)\<close>.\<close>

definition setHeader :: "string \<Rightarrow> string \<Rightarrow> (string \<times> string) list \<Rightarrow> (string \<times> string) list" where
  "setHeader k v h = filter (\<lambda>kv. fst kv \<noteq> k) h @ [(k, v)]"

text \<open>\<^verbatim>\<open>http.Error(w, msg, code)\<close> on a writer without headers.\<close>

definition httpError :: "string \<Rightarrow> int \<Rightarrow> reply" where
  "httpError msg c =
     \<lparr>code = c,
      hdr = [(''Content-Type'', ''text/plain; charset=utf-8''),
             (''X-Content-Type-Options'', ''nosniff'')],
      payload = msg @ [CHR 0x0A]\<rparr>"

text \<open>\<^verbatim>\<open>strconv.FormatInt(n, 10)\<close>.\<close>

function FormatNat :: "nat \<Rightarrow> string" where
  "FormatNat n =
     (if n < 10 then [''0123456789'' ! n]
      else FormatNat (n div 10) @ [''0123456789'' ! (n mod 10)])"
  by pat_completeness auto
termination
  by (relation "measure id") auto

definition FormatInt :: "int \<Rightarrow> string" where
  "FormatInt i = (if i < 0 then CHR ''-'' # FormatNat (nat (- i)) else FormatNat (nat i))"

text \<open>The pieces of package strings that the handler uses.\<close>

definition TrimPrefix :: "string \<Rightarrow> string \<Rightarrow> string" where
  "TrimPrefix s p = (if take (length p) s = p then drop (length p) s else s)"

fun IndexByte :: "string \<Rightarrow> char \<Rightarrow> int" where
  "IndexByte [] c = - 1"
| "IndexByte (x # xs) c =
     (if x = c then 0 else (let i = IndexByte xs c in if i < 0 then - 1 else i + 1))"

definition TrimLeft :: "string \<Rightarrow> string \<Rightarrow> string" where
  "TrimLeft s cutset = dropWhile (\<lambda>c. c \<in> set cutset) s"

definition TrimRight :: "string \<Rightarrow> string \<Rightarrow> string" where
  "TrimRight s cutset = rev (dropWhile (\<lambda>c. c \<in> set cutset) (rev s))"

text \<open>\<^verbatim>\<open>splitDomainAndRoute\<close>: \<open>None\<close> is its error return.\<close>

definition splitDomainAndRoute :: "string \<Rightarrow> (string \<times> string) option" where
  "splitDomainAndRoute path =
     (let p = TrimPrefix path ''/'';
          i = IndexByte p (CHR ''/'')
      in if i \<le> 0 then None else Some (take (nat i) p, drop (nat (i + 1)) p))"

definition buildUpstreamURL :: "string \<Rightarrow> string \<Rightarrow> string \<Rightarrow> string" where
  "buildUpstreamURL domain route rawQuery =
     (let u = ''https://'' @ TrimRight domain ''/'' @ ''/'' @ TrimLeft route ''/''
      in if rawQuery \<noteq> [] then u @ ''?'' @ rawQuery else u)"

datatype fetchKind = kindServeCache | kindNotFound | kindUpstreamError | kindWroteBody

record fetchResult =
  kind :: fetchKind
  status :: int
  body :: string
  contentType :: string
  etag :: string
  lastModified :: string

text \<open>\<^verbatim>\<open>fetchResult{kind: k}\<close>: every other field has its zero value.\<close>

definition ofKind :: "fetchKind \<Rightarrow> fetchResult" where
  "ofKind k = \<lparr>kind = k, status = 0, body = [], contentType = [], etag = [], lastModified = []\<rparr>"

text \<open>The server's configuration fields.\<close>

record Server =
  TTLDefault :: go_int
  TTL404 :: go_int
  ServeIfPresent :: bool

text \<open>
  \<^verbatim>\<open>serveFromCache\<close>: \<open>None\<close> when it returns false (nothing was written), else the
  reply it wrote.
\<close>

definition serveFromCache :: "env \<Rightarrow> nat \<Rightarrow> string \<Rightarrow> world \<Rightarrow> reply option \<times> world" where
  "serveFromCache e l key w =
     (case GetObject e l key w of
        (Inl err, w') \<Rightarrow> (None, w')
      | (Inr (rc, sz, hdrs), w') \<Rightarrow>
          (Some \<lparr>code = 200,
                 hdr = setHeader ''Content-Length'' (FormatInt sz)
                         (foldl (\<lambda>h kv. if snd kv \<noteq> [] then setHeader (fst kv) (snd kv) h else h) [] hdrs),
                 payload = rc\<rparr>, w'))"

text \<open>
  What the function passed to \<^verbatim>\<open>singleflight.Do\<close> returns: a value, an error, or a
  panic. The function panics when \<^verbatim>\<open>http.NewRequestWithContext\<close> rejected the URL: its
  error is discarded and the nil request is dereferenced.
\<close>

datatype 'a result = Ok 'a | Err string | Panic

text \<open>
  The function literal passed to \<^verbatim>\<open>s.sf.Do\<close> in \<^verbatim>\<open>ServeHTTP\<close> (lines 73 to 153 of
  the handler that calls the store directly), in two parts. \<open>fetchAndStore\<close> is its
  second part, lines 85 to 152: the conditional request to the origin and what is done
  with the response. \<open>meta\<close> and \<open>hasMeta\<close> are the variables the first part assigned.
\<close>

definition fetchAndStore ::
  "Server \<Rightarrow> env \<Rightarrow> string \<Rightarrow> string \<Rightarrow> string \<Rightarrow> Meta \<Rightarrow> bool \<Rightarrow> world \<Rightarrow>
   fetchResult result \<times> world" where
  "fetchAndStore s e objKey metaKey upstreamURL meta hasMeta w2 =
     (if \<not> newRequest e upstreamURL then (Panic, w2)
      else
        let inm = (if hasMeta then ETag meta else []);
            ims = (if hasMeta then LastModified meta else []);
            w3 = logged (EvFetch upstreamURL inm ims) w2
        in
        (case roundTrip e upstreamURL inm ims of
           Inl err \<Rightarrow> (Err err, w3)
         | Inr resp \<Rightarrow>
             if StatusCode resp = 304 \<and> hasMeta then
               (case WriteMeta e 105 metaKey (meta\<lparr>CachedAt := NowISO e 104\<rparr>) w3 of
                  (werr, w4) \<Rightarrow> (Ok (ofKind kindServeCache), w4))
             else if StatusCode resp = 404 then
               (case WriteMeta e 111 metaKey
                       \<lparr>ETag = [], LastModified = [], CachedAt = NowISO e 112,
                        TTL = TTL404 s, Size = 0, Neg = True\<rparr> w3 of
                  (werr, w4) \<Rightarrow> (Ok (ofKind kindNotFound), w4))
             else if StatusCode resp < 200 \<or> 300 \<le> StatusCode resp then
               (Ok ((ofKind kindUpstreamError)\<lparr>status := StatusCode resp\<rparr>), w3)
             else
               (case Body resp of
                  Inl err \<Rightarrow> (Err err, w3)
                | Inr bdy \<Rightarrow>
                    let ct = Header resp ''Content-Type'';
                        et = Header resp ''ETag'';
                        lm = Header resp ''Last-Modified''
                    in
                    (case PutObject e 134 objKey bdy ct w3 of
                       (Some err, w4) \<Rightarrow> (Err err, w4)
                     | (None, w4) \<Rightarrow>
                         (case WriteMeta e 137 metaKey
                                 \<lparr>ETag = et, LastModified = lm, CachedAt = NowISO e 140,
                                  TTL = TTLDefault s, Size = of_nat (length bdy),
                                  Neg = False\<rparr> w4 of
                            (werr, w5) \<Rightarrow>
                              (Ok \<lparr>kind = kindWroteBody, status = 0, body = bdy,
                                   contentType = ct, etag = et, lastModified = lm\<rparr>,
                               w5))))))"

text \<open>
  The whole function literal: the re-check of the metadata (lines 74 to 83), then
  \<open>fetchAndStore\<close>.
\<close>

definition work ::
  "Server \<Rightarrow> env \<Rightarrow> string \<Rightarrow> string \<Rightarrow> string \<Rightarrow> world \<Rightarrow> fetchResult result \<times> world" where
  "work s e objKey metaKey upstreamURL w0 =
     (case ReadMeta e 75 metaKey w0 of
        ((meta, hasMeta, rerr), w1) \<Rightarrow>
          if hasMeta \<and> IsNegativeFresh (parseTime e) (clock e 76) meta (TTL404 s)
          then (Ok (ofKind kindNotFound), w1)
          else
            (case (if hasMeta \<and> IsFresh (parseTime e) (clock e 79) meta (TTLDefault s)
                   then HasObject e 80 objKey w1 else ((False, None), w1)) of
               ((ok, herr), w2) \<Rightarrow>
                 if ok then (Ok (ofKind kindServeCache), w2)
                 else fetchAndStore s e objKey metaKey upstreamURL meta hasMeta w2))"

text \<open>What a request ends in: a reply, or a panic of the handler's goroutine.\<close>

datatype outcome = Replied reply | Panicked

text \<open>
  The \<^verbatim>\<open>switch res.kind\<close> that ends \<^verbatim>\<open>ServeHTTP\<close> (lines 160 to 201). Its
  \<^verbatim>\<open>default\<close> branch has no counterpart here: a result that comes without an error has
  one of the four kinds.
\<close>

definition respond :: "env \<Rightarrow> string \<Rightarrow> fetchResult \<Rightarrow> world \<Rightarrow> outcome \<times> world" where
  "respond e objKey res w =
     (case kind res of
        kindServeCache \<Rightarrow>
          (case serveFromCache e 163 objKey w of
             (Some r, w') \<Rightarrow> (Replied r, w')
           | (None, w') \<Rightarrow> (Replied (httpError ''cache read failed'' 500), w'))
      | kindNotFound \<Rightarrow> (Replied (httpError ''Upstream 404'' 404), w)
      | kindUpstreamError \<Rightarrow>
          (if 400 \<le> status res \<and> status res \<le> 599
           then (Replied (httpError ''Upstream error'' (status res)), w)
           else (Replied (httpError ''Upstream error'' 502), w))
      | kindWroteBody \<Rightarrow>
          (let ct = (if contentType res = [] then ''application/octet-stream'' else contentType res);
               h1 = setHeader ''Content-Type'' ct [];
               h2 = (if etag res \<noteq> [] then setHeader ''ETag'' (etag res) h1 else h1);
               h3 = (if lastModified res \<noteq> [] then setHeader ''Last-Modified'' (lastModified res) h2 else h2);
               h4 = setHeader ''Content-Length'' (FormatInt (int (length (body res)))) h3
           in (Replied \<lparr>code = 200, hdr = h4, payload = body res\<rparr>, w)))"

text \<open>
  The two ways of \<^verbatim>\<open>ServeHTTP\<close> to answer from the store before it enters the
  single-flight section (lines 49 to 70): the object is present and the server is
  configured to serve what is present; the metadata is negative-fresh, or fresh with the
  object present. \<open>None\<close>: neither returned.
\<close>

definition fastPaths :: "Server \<Rightarrow> env \<Rightarrow> string \<Rightarrow> string \<Rightarrow> world \<Rightarrow> reply option \<times> world" where
  "fastPaths s e objKey metaKey w =
     (case (if ServeIfPresent s
            then (case HasObject e 51 objKey w of
                    ((ok, herr), w') \<Rightarrow> if ok then serveFromCache e 52 objKey w' else (None, w'))
            else (None, w)) of
        (Some r, w1) \<Rightarrow> (Some r, w1)
      | (None, w1) \<Rightarrow>
          (case ReadMeta e 59 metaKey w1 of
             ((meta, hasMeta, rerr), w2) \<Rightarrow>
               if hasMeta \<and> IsNegativeFresh (parseTime e) (clock e 60) meta (TTL404 s)
               then (Some (httpError ''Upstream negative-cached 404'' 404), w2)
               else if hasMeta \<and> IsFresh (parseTime e) (clock e 64) meta (TTLDefault s)
               then (case HasObject e 65 objKey w2 of
                       ((ok, herr), w') \<Rightarrow>
                         if ok then serveFromCache e 66 objKey w' else (None, w'))
               else (None, w2)))"

text \<open>
  \<^verbatim>\<open>ServeHTTP\<close> of the handler that calls the store directly, for one request that runs
  while no other call for the same key is in flight: \<^verbatim>\<open>singleflight.Do\<close> then runs the
  function it is given and returns its result.
\<close>

definition ServeHTTP :: "Server \<Rightarrow> env \<Rightarrow> string \<Rightarrow> string \<Rightarrow> world \<Rightarrow> outcome \<times> world" where
  "ServeHTTP s e path rawQuery w =
     (case splitDomainAndRoute path of
        None \<Rightarrow> (Replied (httpError ''path must be /<domain>/<route>'' 400), w)
      | Some (domain, route) \<Rightarrow>
          let upstreamURL = buildUpstreamURL domain route rawQuery;
              objKey = ObjectKey domain route;
              metaKey = MetaKey domain route
          in
          (case fastPaths s e objKey metaKey w of
             (Some r, w3) \<Rightarrow> (Replied r, w3)
           | (None, w3) \<Rightarrow>
               (case work s e objKey metaKey upstreamURL w3 of
                  (Panic, w4) \<Rightarrow> (Panicked, w4)
                | (Err err, w4) \<Rightarrow> (Replied (httpError (''upstream error: '' @ err) 502), w4)
                | (Ok res, w4) \<Rightarrow> respond e objKey res w4)))"

section \<open>The request handler with \<^verbatim>\<open>download\<close> and \<^verbatim>\<open>persist\<close>\<close>

text \<open>
  The repository holds a second \<^verbatim>\<open>ServeHTTP\<close>, which reaches the store through the
  \<^verbatim>\<open>Store\<close> interface and delegates to \<^verbatim>\<open>parseAndBuildUpstream\<close>, \<^verbatim>\<open>download\<close>
  and \<^verbatim>\<open>persist\<close>. It is modelled beside the first, with its own call sites (the lines
  of its own source file). The fields of \<^verbatim>\<open>fetched\<close> carry the suffix \<open>F\<close>, since
  \<^verbatim>\<open>fetchResult\<close> has fields of the same names.
\<close>

record fetched =
  statusF :: int
  notModified :: bool
  bodyF :: string
  contentTypeF :: string
  etagF :: string
  lastModifiedF :: string

definition extractHeaders :: "(string \<Rightarrow> string) \<Rightarrow> string \<times> string \<times> string" where
  "extractHeaders h = (h ''Content-Type'', h ''ETag'', h ''Last-Modified'')"

text \<open>
  \<^verbatim>\<open>download\<close>: the conditional request with the validators of \<open>prior\<close> (a header is
  set when its validator is not empty). It reads the whole body of every response but a
  304, before the status is looked at.
\<close>

definition download :: "env \<Rightarrow> string \<Rightarrow> Meta \<Rightarrow> world \<Rightarrow> fetched result \<times> world" where
  "download e url prior w =
     (if \<not> newRequest e url then (Panic, w)
      else
        let w1 = logged (EvFetch url (ETag prior) (LastModified prior)) w in
        (case roundTrip e url (ETag prior) (LastModified prior) of
           Inl err \<Rightarrow> (Err err, w1)
         | Inr resp \<Rightarrow>
             if StatusCode resp = 304 then
               (Ok \<lparr>statusF = StatusCode resp, notModified = True, bodyF = [],
                    contentTypeF = [], etagF = [], lastModifiedF = []\<rparr>, w1)
             else
               (case Body resp of
                  Inl err \<Rightarrow> (Err err, w1)
                | Inr bdy \<Rightarrow>
                    (case extractHeaders (Header resp) of
                       (ct, et, lm) \<Rightarrow>
                         (Ok \<lparr>statusF = StatusCode resp, notModified = False, bodyF = bdy,
                              contentTypeF = ct, etagF = et, lastModifiedF = lm\<rparr>, w1)))))"

text \<open>\<^verbatim>\<open>persist\<close>: the object, then the metadata; the error of either write is returned.\<close>

definition persist ::
  "env \<Rightarrow> string \<Rightarrow> string \<Rightarrow> fetched \<Rightarrow> go_int \<Rightarrow> world \<Rightarrow> string option \<times> world" where
  "persist e objKey metaKey fr ttlDefault w =
     (case PutObject e 250 objKey (bodyF fr) (contentTypeF fr) w of
        (Some err, w1) \<Rightarrow> (Some err, w1)
      | (None, w1) \<Rightarrow>
          WriteMeta e 261 metaKey
            \<lparr>ETag = etagF fr, LastModified = lastModifiedF fr, CachedAt = NowISO e 256,
             TTL = ttlDefault, Size = of_nat (length (bodyF fr)), Neg = False\<rparr> w1)"

definition parseAndBuildUpstream :: "string \<Rightarrow> string \<Rightarrow> (string \<times> string \<times> string) option" where
  "parseAndBuildUpstream path rawQuery =
     (let p = TrimPrefix path ''/'';
          i = IndexByte p (CHR ''/'')
      in if i \<le> 0 then None
         else
           let domain = take (nat i) p;
               route = drop (nat (i + 1)) p;
               url = ''https://'' @ TrimRight domain ''/'' @ ''/'' @ TrimLeft route ''/''
           in Some (domain, route, if rawQuery \<noteq> [] then url @ ''?'' @ rawQuery else url))"

text \<open>The \<^verbatim>\<open>switch\<close> on what \<^verbatim>\<open>download\<close> returned (lines 137 to 165).\<close>

definition switchFetched ::
  "Server \<Rightarrow> env \<Rightarrow> string \<Rightarrow> string \<Rightarrow> Meta \<Rightarrow> bool \<Rightarrow> fetched \<Rightarrow> world \<Rightarrow>
   fetchResult result \<times> world" where
  "switchFetched s e objKey metaKey meta hasMeta fr w3 =
     (if notModified fr \<and> hasMeta then
        (case WriteMeta e 140 metaKey (meta\<lparr>CachedAt := NowISO e 139\<rparr>) w3 of
           (werr, w4) \<Rightarrow> (Ok (ofKind kindServeCache), w4))
      else if statusF fr = 404 then
        (case WriteMeta e 144 metaKey
                \<lparr>ETag = [], LastModified = [], CachedAt = NowISO e 145,
                 TTL = TTL404 s, Size = 0, Neg = True\<rparr> w3 of
           (werr, w4) \<Rightarrow> (Ok (ofKind kindNotFound), w4))
      else if statusF fr < 200 \<or> 300 \<le> statusF fr then
        (Ok ((ofKind kindUpstreamError)\<lparr>status := statusF fr\<rparr>), w3)
      else
        (case persist e objKey metaKey fr (TTLDefault s) w3 of
           (Some err, w4) \<Rightarrow> (Err err, w4)
         | (None, w4) \<Rightarrow>
             (Ok \<lparr>kind = kindWroteBody, status = 0, body = bodyF fr,
                  contentType = contentTypeF fr, etag = etagF fr,
                  lastModified = lastModifiedF fr\<rparr>, w4)))"

text \<open>The function literal passed to \<^verbatim>\<open>s.sf.Do\<close> (lines 120 to 166).\<close>

definition work2 ::
  "Server \<Rightarrow> env \<Rightarrow> string \<Rightarrow> string \<Rightarrow> string \<Rightarrow> world \<Rightarrow> fetchResult result \<times> world" where
  "work2 s e objKey metaKey upstreamURL w0 =
     (case ReadMeta e 122 metaKey w0 of
        ((meta, hasMeta, rerr), w1) \<Rightarrow>
          if hasMeta \<and> IsNegativeFresh (parseTime e) (clock e 123) meta (TTL404 s)
          then (Ok (ofKind kindNotFound), w1)
          else
            (case (if hasMeta \<and> IsFresh (parseTime e) (clock e 126) meta (TTLDefault s)
                   then HasObject e 127 objKey w1 else ((False, None), w1)) of
               ((ok, herr), w2) \<Rightarrow>
                 if ok then (Ok (ofKind kindServeCache), w2)
                 else
                   (case download e upstreamURL meta w2 of
                      (Panic, w3) \<Rightarrow> (Panic, w3)
                    | (Err err, w3) \<Rightarrow> (Err err, w3)
                    | (Ok fr, w3) \<Rightarrow> switchFetched s e objKey metaKey meta hasMeta fr w3)))"

text \<open>Lines 96 to 117 and the final \<^verbatim>\<open>switch\<close> (lines 173 to 209) of this handler.\<close>

definition fastPaths2 :: "Server \<Rightarrow> env \<Rightarrow> string \<Rightarrow> string \<Rightarrow> world \<Rightarrow> reply option \<times> world" where
  "fastPaths2 s e objKey metaKey w =
     (case (if ServeIfPresent s
            then (case HasObject e 98 objKey w of
                    ((ok, herr), w') \<Rightarrow> if ok then serveFromCache e 99 objKey w' else (None, w'))
            else (None, w)) of
        (Some r, w1) \<Rightarrow> (Some r, w1)
      | (None, w1) \<Rightarrow>
          (case ReadMeta e 106 metaKey w1 of
             ((meta, hasMeta, rerr), w2) \<Rightarrow>
               if hasMeta \<and> IsNegativeFresh (parseTime e) (clock e 107) meta (TTL404 s)
               then (Some (httpError ''Upstream negative-cached 404'' 404), w2)
               else if hasMeta \<and> IsFresh (parseTime e) (clock e 111) meta (TTLDefault s)
               then (case HasObject e 112 objKey w2 of
                       ((ok, herr), w') \<Rightarrow>
                         if ok then serveFromCache e 113 objKey w' else (None, w'))
               else (None, w2)))"

definition respond2 :: "env \<Rightarrow> string \<Rightarrow> fetchResult \<Rightarrow> world \<Rightarrow> outcome \<times> world" where
  "respond2 e objKey res w =
     (case kind res of
        kindServeCache \<Rightarrow>
          (case serveFromCache e 176 objKey w of
             (Some r, w') \<Rightarrow> (Replied r, w')
           | (None, w') \<Rightarrow> (Replied (httpError ''cache read failed'' 500), w'))
      | kindNotFound \<Rightarrow> (Replied (httpError ''Upstream 404'' 404), w)
      | kindUpstreamError \<Rightarrow>
          (if 400 \<le> status res \<and> status res \<le> 599
           then (Replied (httpError ''Upstream error'' (status res)), w)
           else (Replied (httpError ''Upstream error'' 502), w))
      | kindWroteBody \<Rightarrow>
          (let ct = (if contentType res = [] then ''application/octet-stream'' else contentType res);
               h1 = setHeader ''Content-Type'' ct [];
               h2 = (if etag res \<noteq> [] then setHeader ''ETag'' (etag res) h1 else h1);
               h3 = (if lastModified res \<noteq> [] then setHeader ''Last-Modified'' (lastModified res) h2 else h2);
               h4 = setHeader ''Content-Length'' (FormatInt (int (length (body res)))) h3
           in (Replied \<lparr>code = 200, hdr = h4, payload = body res\<rparr>, w)))"

definition ServeHTTP2 :: "Server \<Rightarrow> env \<Rightarrow> string \<Rightarrow> string \<Rightarrow> world \<Rightarrow> outcome \<times> world" where
  "ServeHTTP2 s e path rawQuery w =
     (case parseAndBuildUpstream path rawQuery of
        None \<Rightarrow> (Replied (httpError ''path must be /<domain>/<route>'' 400), w)
      | Some (domain, route, upstreamURL) \<Rightarrow>
          let objKey = ObjectKey domain route;
              metaKey = MetaKey domain route
          in
          (case fastPaths2 s e objKey metaKey w of
             (Some r, w3) \<Rightarrow> (Replied r, w3)
           | (None, w3) \<Rightarrow>
               (case work2 s e objKey metaKey upstreamURL w3 of
                  (Panic, w4) \<Rightarrow> (Panicked, w4)
                | (Err err, w4) \<Rightarrow> (Replied (httpError (''upstream error: '' @ err) 502), w4)
                | (Ok res, w4) \<Rightarrow> respond2 e objKey res w4)))"

section \<open>Observing a request\<close>

text \<open>The calls that a step from \<open>w\<close> to \<open>w'\<close> added to the trace.\<close>

definition events :: "world \<Rightarrow> world \<Rightarrow> event list" where
  "events w w' = drop (length (trace w)) (trace w')"

fun isWrite :: "event \<Rightarrow> bool" where
  "isWrite (EvPutObject k d c) = True"
| "isWrite (EvWriteMeta k m) = True"
| "isWrite ev = False"

fun isFetch :: "event \<Rightarrow> bool" where
  "isFetch (EvFetch u a b) = True"
| "isFetch ev = False"

text \<open>A step that only read from the store: no write, no upstream fetch.\<close>

definition quiet :: "world \<Rightarrow> world \<Rightarrow> bool" where
  "quiet w w' \<longleftrightarrow>
     objects w' = objects w \<and> metas w' = metas w \<and>
     (\<exists>evs. trace w' = trace w @ evs \<and> list_all (\<lambda>ev. \<not> isWrite ev \<and> \<not> isFetch ev) evs)"

text \<open>
  The metadata that the single-flight section finds for a path: what the \<^verbatim>\<open>ReadMeta\<close>
  at line 75 returns when the store holds \<open>w\<close>'s metadata (\<open>None\<close>: \<^verbatim>\<open>hasMeta\<close> is
  false there, because the path has no key, the read failed or no record is stored).
\<close>

definition priorMeta :: "env \<Rightarrow> world \<Rightarrow> string \<Rightarrow> Meta option" where
  "priorMeta e w path =
     (case splitDomainAndRoute path of
        None \<Rightarrow> None
      | Some (d, r) \<Rightarrow> (case fails e 75 of Some err \<Rightarrow> None | None \<Rightarrow> metas w (MetaKey d r)))"

text \<open>
  The route component in the words of the specification: after a leading slash is
  stripped, the path has a second segment, that is, a slash that ends the first one.
\<close>

definition hasRoute :: "string \<Rightarrow> bool" where
  "hasRoute path \<longleftrightarrow> CHR ''/'' \<in> set (TrimPrefix path ''/'')"

text \<open>
  The paths without a domain or without a route: after a leading slash is stripped, the
  path has no slash at all, or it starts with one (the domain would be empty).
\<close>

definition noDomainOrRoute :: "string \<Rightarrow> bool" where
  "noDomainOrRoute path \<longleftrightarrow>
     (let p = TrimPrefix path ''/'' in CHR ''/'' \<notin> set p \<or> take 1 p = ''/'')"

section \<open>Example requests\<close>

text \<open>
  A store that holds nothing, a server with the default configuration of
  \<^verbatim>\<open>config.Load\<close>, and an environment in which no store call fails, every clock
  reading is midnight of 1 January 2025, and the origin gives one fixed answer.
\<close>

definition emptyWorld :: world where
  "emptyWorld = \<lparr>objects = Map.empty, metas = Map.empty, trace = []\<rparr>"

definition defaultServer :: Server where
  "defaultServer = \<lparr>TTLDefault = 3600, TTL404 = 60, ServeIfPresent = False\<rparr>"

text \<open>The same server, configured to serve whatever object is present.\<close>

definition eagerServer :: Server where
  "eagerServer = \<lparr>TTLDefault = 3600, TTL404 = 60, ServeIfPresent = True\<rparr>"

definition originAnswers :: "string + Response \<Rightarrow> env" where
  "originAnswers ans =
     \<lparr>fails = (\<lambda>l. None),
      clock = (\<lambda>l. 1735689600000000000),
      parseTime = (\<lambda>s. if s = ''2025-01-01T00:00:00Z'' then Some 1735689600000000000
                       else if s = ''2024-01-01T00:00:00Z'' then Some 1704067200000000000
                       else None),
      formatTime = (\<lambda>t. ''2025-01-01T00:00:00Z''),
      newRequest = (\<lambda>u. True),
      roundTrip = (\<lambda>u a b. ans),
      stat = (\<lambda>d c. [(''Content-Type'', c)])\<rparr>"

text \<open>A store that cached \<^verbatim>\<open>/example.com/a.txt\<close> one year before that midnight.\<close>

definition cachedWorld :: world where
  "cachedWorld =
     \<lparr>objects = [''objects/example.com/a.txt'' \<mapsto>
                   \<lparr>bytes = ''hello'', ohdrs = [(''Content-Type'', ''text/plain'')]\<rparr>],
      metas = [''meta/example.com/a.txt.json'' \<mapsto>
                 \<lparr>ETag = ''x1'', LastModified = [], CachedAt = ''2024-01-01T00:00:00Z'',
                  TTL = 3600, Size = 5, Neg = False\<rparr>],
      trace = []\<rparr>"

text \<open>The origin's answer 200 with the body \<^verbatim>\<open>hello\<close> and the ETag \<^verbatim>\<open>x1\<close>.\<close>

definition helloResponse :: "string + Response" where
  "helloResponse =
     Inr \<lparr>StatusCode = 200,
          Header = (\<lambda>h. if h = ''Content-Type'' then ''text/plain''
                        else if h = ''ETag'' then ''x1'' else []),
          Body = Inr ''hello''\<rparr>"

text \<open>The same environment, but the store call at line \<open>l\<close> fails.\<close>

definition failingAt :: "nat \<Rightarrow> env \<Rightarrow> env" where
  "failingAt l e = e\<lparr>fails := (\<lambda>k. if k = l then Some ''store unreachable'' else fails e k)\<rparr>"

definition statusOnly :: "int \<Rightarrow> string + Response" where
  "statusOnly c = Inr \<lparr>StatusCode = c, Header = (\<lambda>h. []), Body = Inr []\<rparr>"

section \<open>Arithmetic of durations\<close>

lemma sint_seconds:
  assumes "- 9223372036 \<le> sint ttl" "sint ttl \<le> 9223372036"
  shows "sint (ttl * Second) = sint ttl * 1000000000"
  using assms unfolding Second_def
  by (simp add: sint_word_ariths signed_take_bit_int_eq_self_iff)

lemma sint_Since:
  "sint (Since now t) = max minDuration (min maxDuration (now - t))"
  unfolding Since_def Sub_def minDuration_def maxDuration_def
  by (simp add: signed_take_bit_int_eq_self_iff sint_sbintrunc' del: of_int_diff)

lemma Since_less_iff:
  assumes "- 9223372036 \<le> sint ttl" "sint ttl \<le> 9223372036"
  shows "sint (Since now t) < sint (ttl * Second) \<longleftrightarrow> now - t < sint ttl * 1000000000"
  using assms unfolding sint_seconds [OF assms] sint_Since minDuration_def maxDuration_def
  by auto

section \<open>The freshness predicates\<close>

text \<open>
  While the effective TTL, in seconds, fits a Duration in nanoseconds (at most
  9223372036 seconds, about 292 years), \<open>IsFresh\<close> is exactly the predicate of the
  specification: not negative, a timestamp that parses, and an age below the TTL.
\<close>

lemma IsFresh_in_range:
  assumes "- 9223372036 \<le> sint (effectiveTTL m d)" "sint (effectiveTTL m d) \<le> 9223372036"
  shows "IsFresh parse now m d \<longleftrightarrow>
    \<not> Neg m \<and> CachedAt m \<noteq> [] \<and>
    (\<exists>t. parse (CachedAt m) = Some t \<and> now - t < sint (effectiveTTL m d) * 1000000000)"
  using assms Since_less_iff [of "effectiveTTL m d" now]
  by (auto simp: IsFresh_def effectiveTTL_def Let_def split: option.splits if_splits)

text \<open>
  C2 (characterisation of positive freshness), evaluated where it fails. A record cached
  one second ago with \<^verbatim>\<open>ttl_sec = 9999999999\<close> is positive, its timestamp parses and
  its age, one second, is far below its TTL; yet \<open>IsFresh\<close> answers false, because
  \<^verbatim>\<open>time.Duration(ttl)*time.Second\<close> wraps around to a negative Duration.
\<close>

theorem IsFresh_huge_ttl_not_fresh:
  "\<not> IsFresh (\<lambda>s. if s = ''2025-01-01T00:00:00Z'' then Some 1735689600000000000 else None)
       1735689601000000000
       \<lparr>ETag = [], LastModified = [], CachedAt = ''2025-01-01T00:00:00Z'',
        TTL = 9999999999, Size = 5, Neg = False\<rparr> 3600
   \<and> sint (effectiveTTL \<lparr>ETag = [], LastModified = [], CachedAt = ''2025-01-01T00:00:00Z'',
        TTL = 9999999999, Size = 5, Neg = False\<rparr> 3600) = 9999999999
   \<and> (1735689601000000000 :: int) - 1735689600000000000 < 9999999999 * 1000000000
   \<and> sint ((9999999999 :: go_int) * Second) = - 8446744074709551616"
  by (simp add: IsFresh_def Since_def Sub_def minDuration_def maxDuration_def Second_def
      effectiveTTL_def)

text \<open>
  C3 (parse-failure safety): a record whose \<^verbatim>\<open>cachedAt\<close> is empty or does not parse is
  neither fresh nor negative-fresh, whatever its other fields, the TTL arguments and the
  clock readings are. Both predicates are total functions into \<open>bool\<close>: they have no
  error result.
\<close>

theorem unparseable_CachedAt_never_fresh:
  "CachedAt m = [] \<or> parse (CachedAt m) = None \<Longrightarrow>
   \<not> IsFresh parse now1 m defaultTTL \<and> \<not> IsNegativeFresh parse now2 m ttl404"
  by (auto simp: IsFresh_def IsNegativeFresh_def Let_def)

theorem unparseable_CachedAt_never_fresh_witness:
  "\<not> IsFresh (\<lambda>s. None) 7 \<lparr>ETag = ''x1'', LastModified = [], CachedAt = ''yesterday'',
        TTL = 60, Size = 5, Neg = False\<rparr> 3600
   \<and> \<not> IsNegativeFresh (\<lambda>s. None) 9 \<lparr>ETag = ''x1'', LastModified = [], CachedAt = ''yesterday'',
        TTL = 60, Size = 5, Neg = False\<rparr> 60"
  using unparseable_CachedAt_never_fresh [of
      "\<lparr>ETag = ''x1'', LastModified = [], CachedAt = ''yesterday'', TTL = 60, Size = 5, Neg = False\<rparr>"
      "\<lambda>s. None" 7 3600 9 60]
  by simp

text \<open>
  C10 (mutual exclusion): no record is fresh and negative-fresh at once, for any TTL
  arguments and any two clock readings: the first needs \<^verbatim>\<open>Neg\<close> false, the second
  needs it true.
\<close>

theorem fresh_and_negative_fresh_exclusive:
  "\<not> (IsFresh parse now1 m defaultTTL \<and> IsNegativeFresh parse now2 m ttl404)"
  by (auto simp: IsFresh_def IsNegativeFresh_def)

theorem fresh_and_negative_fresh_exclusive_witness:
  "\<not> (IsFresh (\<lambda>s. Some 0) 1000 \<lparr>ETag = [], LastModified = [], CachedAt = ''t0'',
          TTL = 0, Size = 0, Neg = True\<rparr> 3600
      \<and> IsNegativeFresh (\<lambda>s. Some 0) 1000 \<lparr>ETag = [], LastModified = [], CachedAt = ''t0'',
          TTL = 0, Size = 0, Neg = True\<rparr> 60)"
  using fresh_and_negative_fresh_exclusive [of "\<lambda>s. Some 0" 1000
      "\<lparr>ETag = [], LastModified = [], CachedAt = ''t0'', TTL = 0, Size = 0, Neg = True\<rparr>" 3600 1000 60]
  by simp

section \<open>Key derivation\<close>

lemma separator_unique:
  "CHR ''/'' \<notin> set d1 \<Longrightarrow> CHR ''/'' \<notin> set d2 \<Longrightarrow>
   d1 @ CHR ''/'' # r1 = d2 @ CHR ''/'' # r2 \<Longrightarrow> d1 = d2 \<and> r1 = r2"
proof (induction d1 arbitrary: d2)
  case Nil
  then show ?case by (cases d2) auto
next
  case (Cons c cs)
  then show ?case by (cases d2) auto
qed

text \<open>
  C8 as stated fails: the domain is concatenated verbatim, so a slash can move between
  the domain and the route without changing either key.
\<close>

theorem keys_collide_on_slash_in_domain:
  "(''a/b'', trimSlashes ''c'') \<noteq> (''a'', trimSlashes ''b/c'')
   \<and> ObjectKey ''a/b'' ''c'' = ObjectKey ''a'' ''b/c''
   \<and> MetaKey ''a/b'' ''c'' = MetaKey ''a'' ''b/c''"
  by (simp add: ObjectKey_def MetaKey_def)

text \<open>
  C8, amended: on domains that contain no slash (every domain that
  \<^verbatim>\<open>splitDomainAndRoute\<close> returns is one), two pairs that differ after the leading
  slashes of the route are trimmed get different object keys and different metadata keys.
\<close>

theorem keys_injective_on_slash_free_domains:
  assumes "CHR ''/'' \<notin> set d1" and "CHR ''/'' \<notin> set d2"
    and "(d1, trimSlashes r1) \<noteq> (d2, trimSlashes r2)"
  shows "ObjectKey d1 r1 \<noteq> ObjectKey d2 r2 \<and> MetaKey d1 r1 \<noteq> MetaKey d2 r2"
  using assms separator_unique [of d1 d2 "trimSlashes r1" "trimSlashes r2"]
  by (auto simp: ObjectKey_def MetaKey_def)

theorem keys_injective_on_slash_free_domains_witness:
  "ObjectKey ''example.com'' ''/a.txt'' \<noteq> ObjectKey ''example.com'' ''b.txt''
   \<and> MetaKey ''example.com'' ''/a.txt'' \<noteq> MetaKey ''example.com'' ''b.txt''"
  using keys_injective_on_slash_free_domains [of "''example.com''" "''example.com''" "''/a.txt''" "''b.txt''"]
  by simp

section \<open>The phases of a request\<close>

text \<open>
  Reading from the store changes neither map and adds only read events to the trace;
  such steps compose.
\<close>


lemma quiet_refl: "quiet w w"
  by (simp add: quiet_def)

lemma quiet_trans: "quiet w1 w2 \<Longrightarrow> quiet w2 w3 \<Longrightarrow> quiet w1 w3"
  unfolding quiet_def by (elim conjE exE) (rule conjI, simp, rule conjI, simp, rule_tac x = "evs @ evsa" in exI, simp)

lemma quiet_events: "quiet w w' \<Longrightarrow> list_all (\<lambda>ev. \<not> isWrite ev \<and> \<not> isFetch ev) (events w w')"
  by (auto simp: quiet_def events_def)

lemma HasObject_quiet: "HasObject e l k w = (x, w') \<Longrightarrow> quiet w w'"
  by (auto simp: HasObject_def quiet_def logged_def)

lemma ReadMeta_quiet: "ReadMeta e l k w = (x, w') \<Longrightarrow> quiet w w'"
  by (auto simp: ReadMeta_def quiet_def logged_def)

lemma serveFromCache_quiet: "serveFromCache e l k w = (x, w') \<Longrightarrow> quiet w w'"
  by (auto simp: serveFromCache_def GetObject_def quiet_def logged_def split: sum.splits option.splits prod.splits)

lemma serveFromCache_code: "serveFromCache e l k w = (Some rep, w') \<Longrightarrow> code rep = 200"
  by (auto simp: serveFromCache_def GetObject_def split: sum.splits option.splits prod.splits)

lemma fastPaths_quiet: "fastPaths s e ok mk w = (x, w') \<Longrightarrow> quiet w w'"
  unfolding fastPaths_def
  by (auto split: prod.splits option.splits if_splits
      dest!: HasObject_quiet ReadMeta_quiet serveFromCache_quiet;
      blast intro: quiet_trans quiet_refl)

lemma fastPaths_code:
  "fastPaths s e ok mk w = (Some rep, w') \<Longrightarrow> code rep = 200 \<or> rep = httpError ''Upstream negative-cached 404'' 404"
  unfolding fastPaths_def
  by (auto split: prod.splits option.splits if_splits dest: serveFromCache_code)


lemmas write_defs = WriteMeta_def PutObject_def logged_def

lemma fetchAndStore_upstream_error:
  assumes "newRequest e u"
    and "roundTrip e u (if hasMeta then ETag meta else []) (if hasMeta then LastModified meta else []) = Inr resp"
    and "StatusCode resp < 200 \<or> 300 \<le> StatusCode resp"
    and "StatusCode resp \<noteq> 404"
    and "\<not> (StatusCode resp = 304 \<and> hasMeta)"
  shows "fetchAndStore s e ok mk u meta hasMeta w =
     (Ok ((ofKind kindUpstreamError)\<lparr>status := StatusCode resp\<rparr>),
      logged (EvFetch u (if hasMeta then ETag meta else []) (if hasMeta then LastModified meta else [])) w)"
  using assms by (auto simp: fetchAndStore_def Let_def)

lemma fetchAndStore_trace:
  "\<exists>evs. trace (snd (fetchAndStore s e ok mk u meta hasMeta w)) = trace w @ evs \<and>
     (\<forall>u' a b. EvFetch u' a b \<in> set evs \<longrightarrow>
        newRequest e u \<and> u' = u \<and> a = (if hasMeta then ETag meta else []) \<and> b = (if hasMeta then LastModified meta else []))"
  by (auto simp: fetchAndStore_def Let_def write_defs split: sum.splits option.splits prod.splits)


lemma respond_quiet: "respond e ok res w = (out, w') \<Longrightarrow> quiet w w'"
  unfolding respond_def
  by (auto split: fetchKind.splits prod.splits option.splits if_splits simp: Let_def
      dest!: serveFromCache_quiet intro: quiet_refl)

lemma ReadMeta_result:
  "ReadMeta e l k w = ((meta, hasMeta, rerr), w') \<Longrightarrow>
   (hasMeta \<longleftrightarrow> fails e l = None \<and> metas w k \<noteq> None) \<and> (hasMeta \<longrightarrow> metas w k = Some meta)"
  unfolding ReadMeta_def
  by (cases "fails e l"; cases "metas w k"; simp; blast)

lemma work_cases:
  assumes "work s e ok mk u w0 = (res, w')"
  shows "(quiet w0 w' \<and> (res = Ok (ofKind kindNotFound) \<or> res = Ok (ofKind kindServeCache)))
    \<or> (\<exists>w2 meta hasMeta. quiet w0 w2 \<and> (hasMeta \<longleftrightarrow> fails e 75 = None \<and> metas w0 mk \<noteq> None)
          \<and> (hasMeta \<longrightarrow> metas w0 mk = Some meta)
          \<and> fetchAndStore s e ok mk u meta hasMeta w2 = (res, w'))"
proof -
  obtain meta hasMeta rerr w1 where R: "ReadMeta e 75 mk w0 = ((meta, hasMeta, rerr), w1)"
    by (metis prod_cases3 surj_pair)
  note q1 = ReadMeta_quiet [OF R] and h = ReadMeta_result [OF R]
  show ?thesis
  proof (cases "hasMeta \<and> IsNegativeFresh (parseTime e) (clock e 76) meta (TTL404 s)")
    case True
    with assms R q1 show ?thesis by (simp add: work_def)
  next
    case nf: False
    obtain ok' herr w2 where H: "(if hasMeta \<and> IsFresh (parseTime e) (clock e 79) meta (TTLDefault s)
                   then HasObject e 80 ok w1 else ((False, None), w1)) = ((ok', herr), w2)"
      by (metis surj_pair)
    have q2: "quiet w1 w2"
      using H by (auto split: if_splits dest: HasObject_quiet intro: quiet_refl)
    have q: "quiet w0 w2" using q1 q2 by (rule quiet_trans)
    show ?thesis
    proof (cases ok')
      case True
      with assms R H nf q show ?thesis by (simp add: work_def)
    next
      case False
      with assms R H nf have "fetchAndStore s e ok mk u meta hasMeta w2 = (res, w')"
        by (simp add: work_def)
      with q h show ?thesis by blast
    qed
  qed
qed


lemma respond_not_found:
  "respond e ok (ofKind kindNotFound) w = (Replied (httpError ''Upstream 404'' 404), w)"
  by (simp add: respond_def ofKind_def)

lemma respond_serve_cache:
  "respond e ok (ofKind kindServeCache) w = (out, w') \<Longrightarrow>
   \<exists>rep. out = Replied rep \<and> (code rep = 200 \<or> code rep = 500)"
  by (auto simp: respond_def ofKind_def httpError_def split: prod.splits option.splits
      dest: serveFromCache_code)

lemma respond_upstream_error:
  "respond e ok ((ofKind kindUpstreamError)\<lparr>status := c\<rparr>) w =
     (Replied (httpError ''Upstream error'' (if 400 \<le> c \<and> c \<le> 599 then c else 502)), w)"
  by (simp add: respond_def ofKind_def)

lemma quiet_traceD:
  "quiet w w' \<Longrightarrow> \<exists>evs. trace w' = trace w @ evs \<and> list_all (\<lambda>ev. \<not> isWrite ev \<and> \<not> isFetch ev) evs"
  by (simp add: quiet_def)

lemma outcome_quiet:
  assumes "(case res of
                Panic \<Rightarrow> (Panicked, w4)
              | Err err \<Rightarrow> (Replied (httpError (''upstream error: '' @ err) 502), w4)
              | Ok fr \<Rightarrow> respond e ok fr w4) = (out, w')"
  shows "quiet w4 w'"
  using assms by (cases res) (auto dest: respond_quiet intro: quiet_refl)

text \<open>
  The three ways a request can go: the path is rejected; it is answered from the store
  or from the metadata without a fetch; or it reaches \<open>fetchAndStore\<close>, after steps that
  only read, with the metadata that the read at line 75 found.
\<close>

lemma ServeHTTP_cases:
  assumes "ServeHTTP s e path q w = (out, w')"
  obtains
    (rejected) "splitDomainAndRoute path = None"
      "out = Replied (httpError ''path must be /<domain>/<route>'' 400)" "w' = w"
  | (cached) rep where "splitDomainAndRoute path \<noteq> None" "quiet w w'" "out = Replied rep"
      "code rep = 200 \<or> code rep = 404 \<or> code rep = 500"
  | (fetched) d r w2 meta hasMeta res w4 where
      "splitDomainAndRoute path = Some (d, r)" "quiet w w2"
      "hasMeta \<longleftrightarrow> fails e 75 = None \<and> metas w (MetaKey d r) \<noteq> None"
      "hasMeta \<longrightarrow> metas w (MetaKey d r) = Some meta"
      "fetchAndStore s e (ObjectKey d r) (MetaKey d r) (buildUpstreamURL d r q) meta hasMeta w2 = (res, w4)"
      "(case res of
          Panic \<Rightarrow> (Panicked, w4)
        | Err err \<Rightarrow> (Replied (httpError (''upstream error: '' @ err) 502), w4)
        | Ok fr \<Rightarrow> respond e (ObjectKey d r) fr w4) = (out, w')"
proof (cases "splitDomainAndRoute path")
  case None
  with assms rejected show ?thesis by (simp add: ServeHTTP_def)
next
  case (Some dr)
  obtain d r where dr: "dr = (d, r)" by (cases dr)
  let ?ok = "ObjectKey d r" and ?mk = "MetaKey d r" and ?u = "buildUpstreamURL d r q"
  obtain x w3 where F: "fastPaths s e ?ok ?mk w = (x, w3)" by (cases "fastPaths s e ?ok ?mk w")
  note q3 = fastPaths_quiet [OF F]
  show ?thesis
  proof (cases x)
    case (Some rep)
    with assms \<open>splitDomainAndRoute path = Some dr\<close> dr F have "out = Replied rep" "w' = w3"
      by (simp_all add: ServeHTTP_def)
    moreover have "code rep = 200 \<or> code rep = 404"
      using fastPaths_code [of s e ?ok ?mk w rep w3] F Some by (auto simp: httpError_def)
    ultimately show ?thesis using cached [of rep] q3 \<open>splitDomainAndRoute path = Some dr\<close> by auto
  next
    case None
    obtain res w4 where W: "work s e ?ok ?mk ?u w3 = (res, w4)" by (cases "work s e ?ok ?mk ?u w3")
    have out: "(case res of
                Panic \<Rightarrow> (Panicked, w4)
              | Err err \<Rightarrow> (Replied (httpError (''upstream error: '' @ err) 502), w4)
              | Ok fr \<Rightarrow> respond e ?ok fr w4) = (out, w')"
      using assms \<open>splitDomainAndRoute path = Some dr\<close> dr F None W by (simp add: ServeHTTP_def)
    from work_cases [OF W] show ?thesis
    proof
      assume a: "quiet w3 w4 \<and> (res = Ok (ofKind kindNotFound) \<or> res = Ok (ofKind kindServeCache))"
      have q: "quiet w w'" using q3 a outcome_quiet [OF out] by (blast intro: quiet_trans)
      from a have "\<exists>rep. out = Replied rep \<and> (code rep = 200 \<or> code rep = 404 \<or> code rep = 500)"
      proof (elim conjE disjE)
        assume "res = Ok (ofKind kindNotFound)"
        with out show ?thesis by (auto simp: respond_not_found httpError_def)
      next
        assume "res = Ok (ofKind kindServeCache)"
        with out have "respond e ?ok (ofKind kindServeCache) w4 = (out, w')" by simp
        from respond_serve_cache [OF this] show ?thesis by blast
      qed
      with q cached \<open>splitDomainAndRoute path = Some dr\<close> show ?thesis by auto
    next
      assume "\<exists>w2 meta hasMeta. quiet w3 w2 \<and> (hasMeta \<longleftrightarrow> fails e 75 = None \<and> metas w3 ?mk \<noteq> None)
          \<and> (hasMeta \<longrightarrow> metas w3 ?mk = Some meta)
          \<and> fetchAndStore s e ?ok ?mk ?u meta hasMeta w2 = (res, w4)"
      then obtain w2 meta hasMeta where b: "quiet w3 w2" "hasMeta \<longleftrightarrow> fails e 75 = None \<and> metas w3 ?mk \<noteq> None"
          "hasMeta \<longrightarrow> metas w3 ?mk = Some meta"
          "fetchAndStore s e ?ok ?mk ?u meta hasMeta w2 = (res, w4)" by blast
      have m: "metas w3 = metas w" using q3 by (simp add: quiet_def)
      have "quiet w w2" using q3 b(1) by (rule quiet_trans)
      with b m out \<open>splitDomainAndRoute path = Some dr\<close> dr fetched [of d r w2 hasMeta meta res w4]
      show ?thesis by auto
    qed
  qed
qed

section \<open>Evaluating example requests\<close>

lemma split_example: "splitDomainAndRoute ''/example.com/a.txt'' = Some (''example.com'', ''a.txt'')"
  by (simp add: splitDomainAndRoute_def TrimPrefix_def Let_def)

lemmas run_defs = ServeHTTP_def fastPaths_def work_def fetchAndStore_def respond_def
  HasObject_def GetObject_def PutObject_def ReadMeta_def WriteMeta_def logged_def serveFromCache_def
  ObjectKey_def MetaKey_def buildUpstreamURL_def TrimLeft_def TrimRight_def ofKind_def Let_def zeroMeta_def
  NowISO_def emptyWorld_def defaultServer_def originAnswers_def statusOnly_def cachedWorld_def
  IsFresh_def IsNegativeFresh_def Since_def Sub_def minDuration_def maxDuration_def Second_def

lemma run_503:
  "ServeHTTP defaultServer (originAnswers (statusOnly 503)) ''/example.com/a.txt'' [] emptyWorld =
     (Replied (httpError ''Upstream error'' 503),
      \<lparr>objects = Map.empty, metas = Map.empty,
       trace = [EvReadMeta ''meta/example.com/a.txt.json'', EvReadMeta ''meta/example.com/a.txt.json'',
                EvFetch ''https://example.com/a.txt'' [] []]\<rparr>)"
  by (simp add: run_defs split_example)

section \<open>Upstream errors\<close>

text \<open>
  C6 (upstream errors are not persisted and are forwarded within the error range). When a
  request issued an upstream fetch and the origin answered with a status that is not
  2xx, not 404, and not a 304 while the single-flight section had found metadata, then
  the request wrote nothing (both maps of the store are as before and the trace has no
  \<^verbatim>\<open>PutObject\<close> or \<^verbatim>\<open>WriteMeta\<close> call), and the client receives the origin's status
  when it lies in 400..599, else 502.
\<close>

theorem upstream_error_not_persisted:
  assumes S: "ServeHTTP s e path q w = (out, w')"
    and F: "EvFetch u a b \<in> set (events w w')"
    and RT: "roundTrip e u a b = Inr resp"
    and st: "StatusCode resp < 200 \<or> 300 \<le> StatusCode resp" "StatusCode resp \<noteq> 404"
    and P: "StatusCode resp = 304 \<longrightarrow> priorMeta e w path = None"
  shows "objects w' = objects w \<and> metas w' = metas w
     \<and> list_all (\<lambda>ev. \<not> isWrite ev) (events w w')
     \<and> out = Replied (httpError ''Upstream error''
          (if 400 \<le> StatusCode resp \<and> StatusCode resp \<le> 599 then StatusCode resp else 502))"
  using S
proof (cases rule: ServeHTTP_cases)
  case rejected
  with F show ?thesis by (simp add: events_def)
next
  case (cached rep)
  from quiet_events [OF cached(2)] F show ?thesis by (auto simp: list_all_iff)
next
  case (fetched d r w2 meta hasMeta res w4)
  let ?u = "buildUpstreamURL d r q"
  let ?a = "if hasMeta then ETag meta else []" and ?b = "if hasMeta then LastModified meta else []"
  from quiet_traceD [OF fetched(2)] obtain evs1 where
    t1: "trace w2 = trace w @ evs1" and n1: "list_all (\<lambda>ev. \<not> isWrite ev \<and> \<not> isFetch ev) evs1" by blast
  from fetchAndStore_trace [of s e "ObjectKey d r" "MetaKey d r" ?u meta hasMeta w2] fetched(5) obtain evs2 where
    t2: "trace w4 = trace w2 @ evs2"
    and n2: "\<forall>u' a' b'. EvFetch u' a' b' \<in> set evs2 \<longrightarrow> newRequest e ?u \<and> u' = ?u \<and> a' = ?a \<and> b' = ?b"
    by auto
  from quiet_traceD [OF outcome_quiet [OF fetched(6)]] obtain evs3 where
    t3: "trace w' = trace w4 @ evs3" and n3: "list_all (\<lambda>ev. \<not> isWrite ev \<and> \<not> isFetch ev) evs3" by blast
  have "events w w' = evs1 @ evs2 @ evs3" using t1 t2 t3 by (simp add: events_def)
  with F n1 n3 have "EvFetch u a b \<in> set evs2" by (auto simp: list_all_iff)
  with n2 have args: "newRequest e ?u" "u = ?u" "a = ?a" "b = ?b" by blast+
  have no304: "\<not> (StatusCode resp = 304 \<and> hasMeta)"
    using P fetched(1,3) by (auto simp: priorMeta_def)
  have "fetchAndStore s e (ObjectKey d r) (MetaKey d r) ?u meta hasMeta w2 =
     (Ok ((ofKind kindUpstreamError)\<lparr>status := StatusCode resp\<rparr>), logged (EvFetch ?u ?a ?b) w2)"
    using args RT st no304 by (intro fetchAndStore_upstream_error) simp_all
  with fetched(5) have res: "res = Ok ((ofKind kindUpstreamError)\<lparr>status := StatusCode resp\<rparr>)"
    and w4: "w4 = logged (EvFetch ?u ?a ?b) w2" by simp_all
  from fetched(6) res have o: "out = Replied (httpError ''Upstream error''
          (if 400 \<le> StatusCode resp \<and> StatusCode resp \<le> 599 then StatusCode resp else 502))"
    and w': "w' = w4" by (simp_all add: respond_upstream_error)
  have "events w w' = evs1 @ [EvFetch ?u ?a ?b]"
    using w' w4 t1 by (simp add: events_def logged_def)
  moreover have "objects w' = objects w \<and> metas w' = metas w"
    using w' w4 fetched(2) by (simp add: logged_def quiet_def)
  ultimately show ?thesis using o n1 by (simp add: list_all_iff)
qed

theorem upstream_error_not_persisted_witness:
  "ServeHTTP defaultServer (originAnswers (statusOnly 503)) ''/example.com/a.txt'' [] emptyWorld =
     (Replied (httpError ''Upstream error'' 503),
      \<lparr>objects = Map.empty, metas = Map.empty,
       trace = [EvReadMeta ''meta/example.com/a.txt.json'', EvReadMeta ''meta/example.com/a.txt.json'',
                EvFetch ''https://example.com/a.txt'' [] []]\<rparr>)
   \<and> objects \<lparr>objects = Map.empty, metas = Map.empty,
       trace = [EvReadMeta ''meta/example.com/a.txt.json'', EvReadMeta ''meta/example.com/a.txt.json'',
                EvFetch ''https://example.com/a.txt'' [] []]\<rparr> = objects emptyWorld
   \<and> list_all (\<lambda>ev. \<not> isWrite ev) (events emptyWorld \<lparr>objects = Map.empty, metas = Map.empty,
       trace = [EvReadMeta ''meta/example.com/a.txt.json'', EvReadMeta ''meta/example.com/a.txt.json'',
                EvFetch ''https://example.com/a.txt'' [] []]\<rparr>)"
  using upstream_error_not_persisted [OF run_503, of "''https://example.com/a.txt''" "[]" "[]"
      "\<lparr>StatusCode = 503, Header = (\<lambda>h. []), Body = Inr []\<rparr>"] run_503
  by (simp add: events_def emptyWorld_def originAnswers_def statusOnly_def)

lemma run_400:
  "ServeHTTP defaultServer (originAnswers (statusOnly 400)) ''/example.com/a.txt'' [] emptyWorld =
     (Replied (httpError ''Upstream error'' 400),
      \<lparr>objects = Map.empty, metas = Map.empty,
       trace = [EvReadMeta ''meta/example.com/a.txt.json'', EvReadMeta ''meta/example.com/a.txt.json'',
                EvFetch ''https://example.com/a.txt'' [] []]\<rparr>)"
  by (simp add: run_defs split_example)

lemma IndexByte_ge: "- 1 \<le> IndexByte p c"
  by (induction p) (auto simp: Let_def)

lemma IndexByte_neg_iff: "IndexByte p c < 0 \<longleftrightarrow> c \<notin> set p"
  using IndexByte_ge [of _ c] by (induction p) (auto simp: Let_def)

lemma IndexByte_zero_iff: "IndexByte p c = 0 \<longleftrightarrow> take 1 p = [c]"
proof (cases p)
  case Nil
  then show ?thesis by simp
next
  case (Cons x xs)
  have "- 1 \<le> IndexByte xs c" by (rule IndexByte_ge)
  with Cons show ?thesis by (auto simp: Let_def)
qed

lemma splitDomainAndRoute_None_iff: "splitDomainAndRoute path = None \<longleftrightarrow> noDomainOrRoute path"
proof -
  have "IndexByte p c \<le> 0 \<longleftrightarrow> c \<notin> set p \<or> take 1 p = [c]" for p c
    using IndexByte_neg_iff [of p c] IndexByte_zero_iff [of p c] by linarith
  then show ?thesis by (simp add: splitDomainAndRoute_def noDomainOrRoute_def Let_def)
qed

lemma respond_400:
  assumes "respond e ok fr w = (Replied rep, w')" and "code rep = 400"
  shows "kind fr = kindUpstreamError \<and> status fr = 400 \<and> rep = httpError ''Upstream error'' 400 \<and> w' = w"
  using assms
  by (cases "kind fr")
     (auto simp: respond_def httpError_def Let_def split: prod.splits option.splits if_splits
       dest: serveFromCache_code)

lemma fetchAndStore_Ok:
  assumes "fetchAndStore s e ok mk u meta hasMeta w2 = (Ok fr, w4)"
  shows "\<exists>resp evs. roundTrip e u (if hasMeta then ETag meta else []) (if hasMeta then LastModified meta else []) = Inr resp
      \<and> trace w4 = trace w2 @ EvFetch u (if hasMeta then ETag meta else []) (if hasMeta then LastModified meta else []) # evs
      \<and> (kind fr = kindUpstreamError \<longrightarrow> status fr = StatusCode resp)"
proof (cases "roundTrip e u (if hasMeta then ETag meta else []) (if hasMeta then LastModified meta else [])")
  case (Inl err)
  with assms show ?thesis by (simp add: fetchAndStore_def Let_def split: if_splits)
next
  case (Inr resp)
  with assms show ?thesis
    by (simp add: fetchAndStore_def Let_def write_defs ofKind_def
        split: if_splits sum.splits option.splits prod.splits) auto
qed

section \<open>Path validation\<close>

text \<open>
  C9, amended. The handler rejects a path exactly when, after one leading slash is
  stripped, the path has no slash or starts with one. The rejection is the reply 400 with
  the world unchanged: the trace gets no event, so no store call and no upstream fetch
  came before it. For every other path a reply 400 is the origin's status 400, forwarded
  after a fetch.
\<close>

theorem path_validation:
  "(splitDomainAndRoute path = None \<longleftrightarrow> noDomainOrRoute path)
   \<and> (noDomainOrRoute path \<longrightarrow>
        ServeHTTP s e path q w = (Replied (httpError ''path must be /<domain>/<route>'' 400), w))
   \<and> (\<not> noDomainOrRoute path \<and> ServeHTTP s e path q w = (Replied rep, w') \<and> code rep = 400 \<longrightarrow>
        rep = httpError ''Upstream error'' 400 \<and>
        (\<exists>u a b resp. EvFetch u a b \<in> set (events w w') \<and> roundTrip e u a b = Inr resp \<and> StatusCode resp = 400))"
proof (intro conjI impI)
  show "splitDomainAndRoute path = None \<longleftrightarrow> noDomainOrRoute path"
    by (rule splitDomainAndRoute_None_iff)
next
  assume "noDomainOrRoute path"
  then have "splitDomainAndRoute path = None" by (simp add: splitDomainAndRoute_None_iff)
  then show "ServeHTTP s e path q w = (Replied (httpError ''path must be /<domain>/<route>'' 400), w)"
    by (simp add: ServeHTTP_def)
next
  assume a: "\<not> noDomainOrRoute path \<and> ServeHTTP s e path q w = (Replied rep, w') \<and> code rep = 400"
  then have S: "ServeHTTP s e path q w = (Replied rep, w')" and c: "code rep = 400"
    and sp: "splitDomainAndRoute path \<noteq> None" by (simp_all add: splitDomainAndRoute_None_iff)
  from S have "rep = httpError ''Upstream error'' 400 \<and>
        (\<exists>u a b resp. EvFetch u a b \<in> set (events w w') \<and> roundTrip e u a b = Inr resp \<and> StatusCode resp = 400)"
  proof (cases rule: ServeHTTP_cases)
    case rejected
    with sp show ?thesis by simp
  next
    case (cached rep')
    with c show ?thesis by simp
  next
    case (fetched d r w2 meta hasMeta res w4)
    from fetched(6) c obtain fr where res: "res = Ok fr" and r: "respond e (ObjectKey d r) fr w4 = (Replied rep, w')"
      by (cases res) (auto simp: httpError_def)
    from respond_400 [OF r c] have k: "kind fr = kindUpstreamError" "status fr = 400"
      "rep = httpError ''Upstream error'' 400" "w' = w4" by simp_all
    from fetchAndStore_Ok [OF fetched(5) [unfolded res]] k obtain resp evs where
      rt: "roundTrip e (buildUpstreamURL d r q) (if hasMeta then ETag meta else []) (if hasMeta then LastModified meta else []) = Inr resp"
      and tr: "trace w4 = trace w2 @ EvFetch (buildUpstreamURL d r q) (if hasMeta then ETag meta else []) (if hasMeta then LastModified meta else []) # evs"
      and stt: "StatusCode resp = 400" by auto
    from quiet_traceD [OF fetched(2)] obtain evs1 where "trace w2 = trace w @ evs1" by blast
    with tr k have "EvFetch (buildUpstreamURL d r q) (if hasMeta then ETag meta else []) (if hasMeta then LastModified meta else []) \<in> set (events w w')"
      by (simp add: events_def)
    with rt stt k show ?thesis by blast
  qed
  then show "rep = httpError ''Upstream error'' 400" 
    and "\<exists>u a b resp. EvFetch u a b \<in> set (events w w') \<and> roundTrip e u a b = Inr resp \<and> StatusCode resp = 400"
    by simp_all
qed

theorem path_validation_witness:
  "noDomainOrRoute ''/onlydomain''
   \<and> ServeHTTP defaultServer (originAnswers (statusOnly 200)) ''/onlydomain'' [] emptyWorld =
       (Replied (httpError ''path must be /<domain>/<route>'' 400), emptyWorld)
   \<and> \<not> noDomainOrRoute ''/example.com/a.txt''
   \<and> (\<exists>u a b resp. EvFetch u a b \<in> set (events emptyWorld
         \<lparr>objects = Map.empty, metas = Map.empty,
          trace = [EvReadMeta ''meta/example.com/a.txt.json'', EvReadMeta ''meta/example.com/a.txt.json'',
                EvFetch ''https://example.com/a.txt'' [] []]\<rparr>)
        \<and> roundTrip (originAnswers (statusOnly 400)) u a b = Inr resp \<and> StatusCode resp = 400)"
proof -
  have n1: "noDomainOrRoute ''/onlydomain''" by (simp add: noDomainOrRoute_def TrimPrefix_def)
  have n2: "\<not> noDomainOrRoute ''/example.com/a.txt''" by (simp add: noDomainOrRoute_def TrimPrefix_def)
  note t = path_validation [of "''/onlydomain''" defaultServer "originAnswers (statusOnly 200)" "[]" emptyWorld]
  note t2 = path_validation [of "''/example.com/a.txt''" defaultServer "originAnswers (statusOnly 400)" "[]" emptyWorld
       "httpError ''Upstream error'' 400" "\<lparr>objects = Map.empty, metas = Map.empty,
          trace = [EvReadMeta ''meta/example.com/a.txt.json'', EvReadMeta ''meta/example.com/a.txt.json'',
                EvFetch ''https://example.com/a.txt'' [] []]\<rparr>"]
  from t n1 have "ServeHTTP defaultServer (originAnswers (statusOnly 200)) ''/onlydomain'' [] emptyWorld =
       (Replied (httpError ''path must be /<domain>/<route>'' 400), emptyWorld)" by blast
  moreover from t2 n2 run_400 have "(\<exists>u a b resp. EvFetch u a b \<in> set (events emptyWorld
         \<lparr>objects = Map.empty, metas = Map.empty,
          trace = [EvReadMeta ''meta/example.com/a.txt.json'', EvReadMeta ''meta/example.com/a.txt.json'',
                EvFetch ''https://example.com/a.txt'' [] []]\<rparr>)
        \<and> roundTrip (originAnswers (statusOnly 400)) u a b = Inr resp \<and> StatusCode resp = 400)"
    by (simp add: httpError_def)
  ultimately show ?thesis using n1 n2 by simp
qed

text \<open>
  C9 as stated fails in the direction from the reply to the path, twice. The path
  \<^verbatim>\<open>//x\<close> has a second segment and is rejected with 400, because the check
  \<^verbatim>\<open>i <= 0\<close> also refuses an empty domain. And a path with a domain and a route gets
  the reply 400 when the origin answers 400, which the handler forwards.
\<close>

theorem path_with_route_gets_400:
  "hasRoute ''//x''
   \<and> (\<forall>s e q w. ServeHTTP s e ''//x'' q w = (Replied (httpError ''path must be /<domain>/<route>'' 400), w))
   \<and> hasRoute ''/example.com/a.txt''
   \<and> fst (ServeHTTP defaultServer (originAnswers (statusOnly 400)) ''/example.com/a.txt'' [] emptyWorld) =
        Replied (httpError ''Upstream error'' 400)
   \<and> code (httpError ''Upstream error'' 400) = 400"
proof -
  have "splitDomainAndRoute ''//x'' = None"
    by (simp add: splitDomainAndRoute_def TrimPrefix_def)
  then have "\<forall>s e q w. ServeHTTP s e ''//x'' q w = (Replied (httpError ''path must be /<domain>/<route>'' 400), w)"
    by (simp add: ServeHTTP_def)
  moreover have "hasRoute ''//x''" "hasRoute ''/example.com/a.txt''"
    by (simp_all add: hasRoute_def TrimPrefix_def)
  moreover have "fst (ServeHTTP defaultServer (originAnswers (statusOnly 400)) ''/example.com/a.txt'' [] emptyWorld) =
        Replied (httpError ''Upstream error'' 400)"
    by (simp add: run_400)
  moreover have "code (httpError ''Upstream error'' 400) = 400"
    by (simp add: httpError_def)
  ultimately show ?thesis by blast
qed

section \<open>Requests that reach the origin\<close>

lemma ServeHTTP_fetched:
  assumes S: "ServeHTTP s e path q w = (out, w')" and F: "EvFetch u a b \<in> set (events w w')"
  obtains d r w2 meta hasMeta res w4 where
      "splitDomainAndRoute path = Some (d, r)" "quiet w w2"
      "hasMeta \<longleftrightarrow> fails e 75 = None \<and> metas w (MetaKey d r) \<noteq> None"
      "hasMeta \<longrightarrow> metas w (MetaKey d r) = Some meta"
      "fetchAndStore s e (ObjectKey d r) (MetaKey d r) (buildUpstreamURL d r q) meta hasMeta w2 = (res, w4)"
      "(case res of
          Panic \<Rightarrow> (Panicked, w4)
        | Err err \<Rightarrow> (Replied (httpError (''upstream error: '' @ err) 502), w4)
        | Ok fr \<Rightarrow> respond e (ObjectKey d r) fr w4) = (out, w')"
      "newRequest e (buildUpstreamURL d r q)" "u = buildUpstreamURL d r q"
      "a = (if hasMeta then ETag meta else [])" "b = (if hasMeta then LastModified meta else [])"
  using S
proof (cases rule: ServeHTTP_cases)
  case rejected
  with F show ?thesis by (simp add: events_def)
next
  case (cached rep)
  from quiet_events [OF cached(2)] F show ?thesis by (auto simp: list_all_iff)
next
  case (fetched d r w2 meta hasMeta res w4)
  let ?u = "buildUpstreamURL d r q"
  let ?a = "if hasMeta then ETag meta else []" and ?b = "if hasMeta then LastModified meta else []"
  from quiet_traceD [OF fetched(2)] obtain evs1 where
    t1: "trace w2 = trace w @ evs1" and n1: "list_all (\<lambda>ev. \<not> isWrite ev \<and> \<not> isFetch ev) evs1" by blast
  from fetchAndStore_trace [of s e "ObjectKey d r" "MetaKey d r" ?u meta hasMeta w2] fetched(5) obtain evs2 where
    t2: "trace w4 = trace w2 @ evs2"
    and n2: "\<forall>u' a' b'. EvFetch u' a' b' \<in> set evs2 \<longrightarrow> newRequest e ?u \<and> u' = ?u \<and> a' = ?a \<and> b' = ?b"
    by auto
  from quiet_traceD [OF outcome_quiet [OF fetched(6)]] obtain evs3 where
    t3: "trace w' = trace w4 @ evs3" and n3: "list_all (\<lambda>ev. \<not> isWrite ev \<and> \<not> isFetch ev) evs3" by blast
  have "events w w' = evs1 @ evs2 @ evs3" using t1 t2 t3 by (simp add: events_def)
  with F n1 n3 have "EvFetch u a b \<in> set evs2" by (auto simp: list_all_iff)
  with n2 have "newRequest e ?u" "u = ?u" "a = ?a" "b = ?b" by blast+
  with fetched that show ?thesis by blast
qed


lemma fetchAndStore_404:
  assumes "newRequest e u"
    and "roundTrip e u (if hasMeta then ETag meta else []) (if hasMeta then LastModified meta else []) = Inr resp"
    and "StatusCode resp = 404"
  shows "fetchAndStore s e ok mk u meta hasMeta w2 =
     (Ok (ofKind kindNotFound),
      snd (WriteMeta e 111 mk
             \<lparr>ETag = [], LastModified = [], CachedAt = NowISO e 112, TTL = TTL404 s, Size = 0, Neg = True\<rparr>
             (logged (EvFetch u (if hasMeta then ETag meta else []) (if hasMeta then LastModified meta else [])) w2)))"
  using assms by (simp add: fetchAndStore_def Let_def split: prod.splits)

lemma WriteMeta_world:
  "snd (WriteMeta e l k m w) =
     \<lparr>objects = objects w,
      metas = (case fails e l of None \<Rightarrow> (metas w)(k \<mapsto> m) | Some err \<Rightarrow> metas w),
      trace = trace w @ [EvWriteMeta k m]\<rparr>"
  by (cases "fails e l") (simp_all add: WriteMeta_def logged_def)

lemma ServeHTTP_fastPaths:
  assumes "splitDomainAndRoute path = Some (d, r)"
    and "fastPaths s e (ObjectKey d r) (MetaKey d r) w = (Some rep, w1)"
  shows "ServeHTTP s e path q w = (Replied rep, w1)"
  using assms by (simp add: ServeHTTP_def)


lemma run_404:
  "ServeHTTP defaultServer (originAnswers (statusOnly 404)) ''/example.com/missing'' [] emptyWorld =
     (Replied (httpError ''Upstream 404'' 404),
      \<lparr>objects = Map.empty,
       metas = [''meta/example.com/missing.json'' \<mapsto>
                 \<lparr>ETag = [], LastModified = [], CachedAt = ''2025-01-01T00:00:00Z'', TTL = 60, Size = 0, Neg = True\<rparr>],
       trace = [EvReadMeta ''meta/example.com/missing.json'', EvReadMeta ''meta/example.com/missing.json'',
                EvFetch ''https://example.com/missing'' [] [],
                EvWriteMeta ''meta/example.com/missing.json''
                  \<lparr>ETag = [], LastModified = [], CachedAt = ''2025-01-01T00:00:00Z'', TTL = 60, Size = 0, Neg = True\<rparr>]\<rparr>)"
  by (simp add: run_defs splitDomainAndRoute_def TrimPrefix_def)

section \<open>Revalidation\<close>




section \<open>Negative caching\<close>

lemma IsNegativeFresh_by_age:
  assumes "Neg m" and "CachedAt m \<noteq> []" and "parse (CachedAt m) = Some t" and "TTL m = ttl404"
    and "- 9223372036 \<le> sint ttl404" "sint ttl404 \<le> 9223372036"
    and "now - t < sint ttl404 * 1000000000"
  shows "IsNegativeFresh parse now m ttl404"
proof -
  have "sint (Since now t) < sint (ttl404 * Second)"
    using Since_less_iff [OF assms(5,6), of now t] assms(7) by blast
  then show ?thesis
    unfolding IsNegativeFresh_def using assms(1-4) by simp
qed

lemma fastPaths_later:
  assumes "metas w mk = Some m"
    and "IsNegativeFresh (parseTime e) (clock e 60) m (TTL404 s)"
    and "ServeIfPresent s \<and> objects w ok \<noteq> None \<longrightarrow> fails e 51 \<noteq> None \<or> fails e 52 \<noteq> None"
  shows "fst (fastPaths s e ok mk w) =
     (if fails e 59 = None then Some (httpError ''Upstream negative-cached 404'' 404) else None)"
proof -
  define eg where "eg = (if ServeIfPresent s
            then (case HasObject e 51 ok w of
                    ((ok', herr), w') \<Rightarrow> if ok' then serveFromCache e 52 ok w' else (None, w'))
            else (None, w))"
  have "fst eg = None"
    unfolding eg_def using assms(3)
    by (cases "fails e 51"; cases "fails e 52"; cases "objects w ok")
       (simp_all add: HasObject_def serveFromCache_def GetObject_def)
  then obtain w1 where e1: "eg = (None, w1)" by (cases eg) simp
  have "quiet w w1"
  proof (cases "ServeIfPresent s")
    case False
    with e1 show ?thesis by (simp add: eg_def quiet_refl)
  next
    case True
    obtain ok' herr wa where ho: "HasObject e 51 ok w = ((ok', herr), wa)"
      by (cases "HasObject e 51 ok w") auto
    note qa = HasObject_quiet [OF ho]
    show ?thesis
    proof (cases ok')
      case False
      with e1 True ho qa show ?thesis by (simp add: eg_def)
    next
      case ok: True
      with e1 True ho have "serveFromCache e 52 ok wa = (None, w1)" by (simp add: eg_def)
      from qa serveFromCache_quiet [OF this] show ?thesis by (rule quiet_trans)
    qed
  qed
  then have m1: "metas w1 mk = Some m" using assms(1) by (simp add: quiet_def)
  have "fastPaths s e ok mk w =
     (case eg of
        (Some r, w1) \<Rightarrow> (Some r, w1)
      | (None, w1) \<Rightarrow>
          (case ReadMeta e 59 mk w1 of
             ((meta, hasMeta, rerr), w2) \<Rightarrow>
               if hasMeta \<and> IsNegativeFresh (parseTime e) (clock e 60) meta (TTL404 s)
               then (Some (httpError ''Upstream negative-cached 404'' 404), w2)
               else if hasMeta \<and> IsFresh (parseTime e) (clock e 64) meta (TTLDefault s)
               then (case HasObject e 65 ok w2 of
                       ((ok', herr), w') \<Rightarrow>
                         if ok' then serveFromCache e 66 ok w' else (None, w'))
               else (None, w2)))"
    by (simp add: fastPaths_def eg_def)
  then show ?thesis
    unfolding e1 using m1 assms(2)
    by (cases "fails e 59") (simp_all add: ReadMeta_def)
qed

lemma work_negative:
  assumes "fails e 75 = None" and "metas w mk = Some m"
    and "IsNegativeFresh (parseTime e) (clock e 76) m (TTL404 s)"
  shows "work s e ok mk u w = (Ok (ofKind kindNotFound), logged (EvReadMeta mk) w)"
  using assms by (simp add: work_def ReadMeta_def)

lemma quiet_logged_read: "quiet w (logged (EvReadMeta k) w)"
  by (simp add: quiet_def logged_def)

lemma later_request_404:
  assumes sp: "splitDomainAndRoute path = Some (d, r)"
    and m: "metas w (MetaKey d r) = Some m"
    and reads: "fails e 59 = None \<or> fails e 75 = None"
    and nf60: "IsNegativeFresh (parseTime e) (clock e 60) m (TTL404 s)"
    and nf76: "IsNegativeFresh (parseTime e) (clock e 76) m (TTL404 s)"
    and eager: "ServeIfPresent s \<and> objects w (ObjectKey d r) \<noteq> None \<longrightarrow> fails e 51 \<noteq> None \<or> fails e 52 \<noteq> None"
  shows "\<exists>rep w'. ServeHTTP s e path q w = (Replied rep, w') \<and> code rep = 404 \<and> quiet w w'"
proof -
  let ?ok = "ObjectKey d r" and ?mk = "MetaKey d r" and ?u = "buildUpstreamURL d r q"
  obtain x w3 where fp: "fastPaths s e ?ok ?mk w = (x, w3)" by (cases "fastPaths s e ?ok ?mk w")
  note q3 = fastPaths_quiet [OF fp]
  from fastPaths_later [OF m nf60 eager] fp
  have x: "x = (if fails e 59 = None then Some (httpError ''Upstream negative-cached 404'' 404) else None)"
    by simp
  show ?thesis
  proof (cases "fails e 59 = None")
    case True
    with x fp have "fastPaths s e ?ok ?mk w = (Some (httpError ''Upstream negative-cached 404'' 404), w3)"
      by simp
    from ServeHTTP_fastPaths [OF sp this] q3 show ?thesis by (auto simp: httpError_def)
  next
    case False
    with reads have r75: "fails e 75 = None" by simp
    have m3: "metas w3 ?mk = Some m" using q3 m by (simp add: quiet_def)
    have "ServeHTTP s e path q w = (Replied (httpError ''Upstream 404'' 404), logged (EvReadMeta ?mk) w3)"
      using sp fp x False by (simp add: ServeHTTP_def work_negative [OF r75 m3 nf76] respond_not_found)
    moreover have "quiet w (logged (EvReadMeta ?mk) w3)"
      using q3 quiet_logged_read by (rule quiet_trans)
    ultimately show ?thesis by (auto simp: httpError_def)
  qed
qed

text \<open>
  C4 (negative caching of upstream 404s), amended. When a request issued an upstream fetch
  and the origin answered 404, the only write of the request is one \<^verbatim>\<open>WriteMeta\<close> of
  the record \<open>neg\<close> (negative, TTL the 404 default, \<^verbatim>\<open>CachedAt\<close> the current time as
  formatted), which the store holds afterwards unless that write fails, and the client
  receives 404. While \<open>neg\<close> is the stored metadata of the path, a later request for
  the path is answered 404 by steps that only read, so without an upstream fetch, when
  \<^item> its clock readings are less than the 404 TTL after the time in \<open>neg\<close>, the
    timestamp parses back to that time, and the TTL in seconds fits a Duration in
    nanoseconds (at most 9223372036 in absolute value);
  \<^item> one of its two reads of the metadata succeeds (line 59 or line 75);
  \<^item> it is not answered by the shortcut that serves whatever is present: the server is
    not configured for it, or no object is stored under the key, or a store call of the
    shortcut fails.
\<close>

theorem upstream_404_is_cached_negatively:
  assumes S: "ServeHTTP s e path q w = (out, w')"
    and F: "EvFetch u a b \<in> set (events w w')"
    and RT: "roundTrip e u a b = Inr resp"
    and st: "StatusCode resp = 404"
    and sp: "splitDomainAndRoute path = Some (d, r)"
    and neg: "neg = \<lparr>ETag = [], LastModified = [], CachedAt = formatTime e (clock e 112),
                     TTL = TTL404 s, Size = 0, Neg = True\<rparr>"
  shows "out = Replied (httpError ''Upstream 404'' 404)
     \<and> filter isWrite (events w w') = [EvWriteMeta (MetaKey d r) neg]
     \<and> objects w' = objects w
     \<and> metas w' = (case fails e 111 of None \<Rightarrow> (metas w)(MetaKey d r \<mapsto> neg) | Some err \<Rightarrow> metas w)
     \<and> (\<forall>e2 q2 w2.
          metas w2 (MetaKey d r) = Some neg
          \<and> (fails e2 59 = None \<or> fails e2 75 = None)
          \<and> (ServeIfPresent s \<and> objects w2 (ObjectKey d r) \<noteq> None \<longrightarrow>
                fails e2 51 \<noteq> None \<or> fails e2 52 \<noteq> None)
          \<and> formatTime e (clock e 112) \<noteq> []
          \<and> parseTime e2 (formatTime e (clock e 112)) = Some (clock e 112)
          \<and> - 9223372036 \<le> sint (TTL404 s) \<and> sint (TTL404 s) \<le> 9223372036
          \<and> clock e2 60 - clock e 112 < sint (TTL404 s) * 1000000000
          \<and> clock e2 76 - clock e 112 < sint (TTL404 s) * 1000000000
          \<longrightarrow> (\<exists>rep w2'. ServeHTTP s e2 path q2 w2 = (Replied rep, w2') \<and> code rep = 404
                   \<and> quiet w2 w2'))"
  using S F
proof (cases rule: ServeHTTP_fetched)
  case (1 d' r' w2 meta hasMeta res w4)
  from 1(1) sp have [simp]: "d' = d" "r' = r" by simp_all
  let ?u = "buildUpstreamURL d r q" and ?mk = "MetaKey d r" and ?ok = "ObjectKey d r"
  let ?w3 = "logged (EvFetch ?u a b) w2"
  have "fetchAndStore s e ?ok ?mk ?u meta hasMeta w2 = (Ok (ofKind kindNotFound), snd (WriteMeta e 111 ?mk neg ?w3))"
    unfolding neg 1(9,10) NowISO_def [symmetric] using 1(7-10) RT st by (intro fetchAndStore_404) simp_all
  with 1(5) have res: "res = Ok (ofKind kindNotFound)" and w4: "w4 = snd (WriteMeta e 111 ?mk neg ?w3)"
    by simp_all
  from 1(6) res have o: "out = Replied (httpError ''Upstream 404'' 404)" and w': "w' = w4"
    by (simp_all add: respond_not_found)
  from quiet_traceD [OF 1(2)] obtain evs1 where
    t1: "trace w2 = trace w @ evs1" and n1: "list_all (\<lambda>ev. \<not> isWrite ev \<and> \<not> isFetch ev) evs1" by blast
  have o2: "objects w2 = objects w" "metas w2 = metas w" using 1(2) by (simp_all add: quiet_def)
  have o4: "objects w' = objects w"
    "metas w' = (case fails e 111 of None \<Rightarrow> (metas w)(?mk \<mapsto> neg) | Some err \<Rightarrow> metas w)"
    "trace w' = trace w @ evs1 @ [EvFetch ?u a b, EvWriteMeta ?mk neg]"
    using o2 t1 by (simp_all add: w' w4 WriteMeta_world logged_def split: option.splits)
  have fw: "filter isWrite (events w w') = [EvWriteMeta ?mk neg]"
    using n1 o4(3) by (simp add: events_def list_all_iff filter_empty_conv)
  have later: "\<exists>rep w2'. ServeHTTP s e2 path q2 v = (Replied rep, w2') \<and> code rep = 404 \<and> quiet v w2'"
    if h: "metas v ?mk = Some neg" "fails e2 59 = None \<or> fails e2 75 = None"
      "ServeIfPresent s \<and> objects v ?ok \<noteq> None \<longrightarrow> fails e2 51 \<noteq> None \<or> fails e2 52 \<noteq> None"
      "formatTime e (clock e 112) \<noteq> []"
      "parseTime e2 (formatTime e (clock e 112)) = Some (clock e 112)"
      "- 9223372036 \<le> sint (TTL404 s)" "sint (TTL404 s) \<le> 9223372036"
      "clock e2 60 - clock e 112 < sint (TTL404 s) * 1000000000"
      "clock e2 76 - clock e 112 < sint (TTL404 s) * 1000000000"
    for e2 q2 v
  proof -
    have nf: "IsNegativeFresh (parseTime e2) now neg (TTL404 s)"
      if "now - clock e 112 < sint (TTL404 s) * 1000000000" for now
      using h(4-7) that by (intro IsNegativeFresh_by_age [where t = "clock e 112"]) (simp_all add: neg)
    from later_request_404 [OF sp h(1) h(2) nf [OF h(8)] nf [OF h(9)] h(3)] show ?thesis .
  qed
  show ?thesis using o fw o4(1,2) later by blast
qed


theorem upstream_404_is_cached_negatively_witness:
  "fst (ServeHTTP defaultServer (originAnswers (statusOnly 404)) ''/example.com/missing'' [] emptyWorld)
     = Replied (httpError ''Upstream 404'' 404)
   \<and> (\<exists>rep w2'. ServeHTTP defaultServer (originAnswers helloResponse) ''/example.com/missing'' []
           (snd (ServeHTTP defaultServer (originAnswers (statusOnly 404)) ''/example.com/missing'' [] emptyWorld))
         = (Replied rep, w2') \<and> code rep = 404
        \<and> quiet (snd (ServeHTTP defaultServer (originAnswers (statusOnly 404)) ''/example.com/missing'' [] emptyWorld)) w2')"
proof -
  let ?e = "originAnswers (statusOnly 404)" and ?e2 = "originAnswers helloResponse"
  let ?run = "ServeHTTP defaultServer ?e ''/example.com/missing'' [] emptyWorld"
  let ?neg = "\<lparr>ETag = [], LastModified = [], CachedAt = formatTime ?e (clock ?e 112),
               TTL = TTL404 defaultServer, Size = 0, Neg = True\<rparr>"
  have S: "?run = (fst ?run, snd ?run)" by simp
  have F: "EvFetch ''https://example.com/missing'' [] [] \<in> set (events emptyWorld (snd ?run))"
    using run_404 by (simp add: events_def emptyWorld_def)
  have RT: "roundTrip ?e ''https://example.com/missing'' [] [] = Inr \<lparr>StatusCode = 404, Header = (\<lambda>h. []), Body = Inr []\<rparr>"
    by (simp add: originAnswers_def statusOnly_def)
  have sp: "splitDomainAndRoute ''/example.com/missing'' = Some (''example.com'', ''missing'')"
    by (simp add: splitDomainAndRoute_def TrimPrefix_def)
  have m: "metas (snd ?run) (MetaKey ''example.com'' ''missing'') = Some ?neg"
    unfolding run_404 by (simp add: MetaKey_def originAnswers_def defaultServer_def)
  note t = upstream_404_is_cached_negatively [OF S F RT _ sp refl [of ?neg]]
  from t have "fst ?run = Replied (httpError ''Upstream 404'' 404)" by simp
  moreover from t have "\<forall>e2 q2 w2.
          metas w2 (MetaKey ''example.com'' ''missing'') = Some ?neg
          \<and> (fails e2 59 = None \<or> fails e2 75 = None)
          \<and> (ServeIfPresent defaultServer \<and> objects w2 (ObjectKey ''example.com'' ''missing'') \<noteq> None \<longrightarrow>
                fails e2 51 \<noteq> None \<or> fails e2 52 \<noteq> None)
          \<and> formatTime ?e (clock ?e 112) \<noteq> []
          \<and> parseTime e2 (formatTime ?e (clock ?e 112)) = Some (clock ?e 112)
          \<and> - 9223372036 \<le> sint (TTL404 defaultServer) \<and> sint (TTL404 defaultServer) \<le> 9223372036
          \<and> clock e2 60 - clock ?e 112 < sint (TTL404 defaultServer) * 1000000000
          \<and> clock e2 76 - clock ?e 112 < sint (TTL404 defaultServer) * 1000000000
          \<longrightarrow> (\<exists>rep w2'. ServeHTTP defaultServer e2 ''/example.com/missing'' q2 w2 = (Replied rep, w2')
                   \<and> code rep = 404 \<and> quiet w2 w2')" by simp
  then have "\<exists>rep w2'. ServeHTTP defaultServer ?e2 ''/example.com/missing'' [] (snd ?run) = (Replied rep, w2')
                   \<and> code rep = 404 \<and> quiet (snd ?run) w2'"
    using m by (simp add: originAnswers_def defaultServer_def)
  ultimately show ?thesis by simp
qed

text \<open>
  C4 as stated fails for later requests, by the handler's design, in two ways. A server
  that serves whatever is present gets a 404 from the origin for a path whose stale
  object is still stored (its first \<^verbatim>\<open>HasObject\<close> failed); the negative record is
  written and is negative-fresh, and the next request, with no failure at all, is
  answered 200 with the stale object, because the shortcut comes before the metadata.
  And a later request whose two reads of the metadata fail treats the record as absent:
  it fetches from the origin again and is answered 200.
\<close>

lemmas bypass_defs = helloResponse_def failingAt_def TrimPrefix_def setHeader_def FormatInt_def
  eagerServer_def splitDomainAndRoute_def

theorem negative_fresh_record_is_bypassed:
  "fst (ServeHTTP eagerServer (failingAt 51 (originAnswers (statusOnly 404))) ''/example.com/a.txt'' [] cachedWorld)
     = Replied (httpError ''Upstream 404'' 404)
   \<and> metas (snd (ServeHTTP eagerServer (failingAt 51 (originAnswers (statusOnly 404)))
                  ''/example.com/a.txt'' [] cachedWorld)) ''meta/example.com/a.txt.json''
     = Some \<lparr>ETag = [], LastModified = [], CachedAt = ''2025-01-01T00:00:00Z'', TTL = 60, Size = 0, Neg = True\<rparr>
   \<and> IsNegativeFresh (parseTime (originAnswers (statusOnly 404))) (clock (originAnswers (statusOnly 404)) 60)
        \<lparr>ETag = [], LastModified = [], CachedAt = ''2025-01-01T00:00:00Z'', TTL = 60, Size = 0, Neg = True\<rparr> 60
   \<and> fst (ServeHTTP eagerServer (originAnswers (statusOnly 404)) ''/example.com/a.txt'' []
           (snd (ServeHTTP eagerServer (failingAt 51 (originAnswers (statusOnly 404)))
                  ''/example.com/a.txt'' [] cachedWorld)))
     = Replied \<lparr>code = 200, hdr = [(''Content-Type'', ''text/plain''), (''Content-Length'', ''5'')],
                payload = ''hello''\<rparr>
   \<and> fst (ServeHTTP defaultServer (failingAt 59 (failingAt 75 (originAnswers helloResponse)))
           ''/example.com/missing'' []
           (snd (ServeHTTP defaultServer (originAnswers (statusOnly 404)) ''/example.com/missing'' [] emptyWorld)))
     = Replied \<lparr>code = 200,
                hdr = [(''Content-Type'', ''text/plain''), (''ETag'', ''x1''), (''Content-Length'', ''5'')],
                payload = ''hello''\<rparr>
   \<and> EvFetch ''https://example.com/missing'' [] [] \<in> set (events
           (snd (ServeHTTP defaultServer (originAnswers (statusOnly 404)) ''/example.com/missing'' [] emptyWorld))
           (snd (ServeHTTP defaultServer (failingAt 59 (failingAt 75 (originAnswers helloResponse)))
                  ''/example.com/missing'' []
                  (snd (ServeHTTP defaultServer (originAnswers (statusOnly 404)) ''/example.com/missing'' [] emptyWorld)))))"
  by (simp add: run_defs bypass_defs events_def)

section \<open>Failures of the writes after a 2xx response\<close>

lemmas run2_defs = ServeHTTP2_def fastPaths2_def work2_def download_def persist_def switchFetched_def
  respond2_def parseAndBuildUpstream_def extractHeaders_def helloResponse_def failingAt_def TrimPrefix_def
  setHeader_def FormatInt_def

text \<open>
  \<^verbatim>\<open>persist\<close> returns an error exactly when one of its two writes fails, and the
  handler that calls it then returns that error from the single-flight function. The
  handler that writes inline returns the error of \<^verbatim>\<open>PutObject\<close>, but discards the one
  of \<^verbatim>\<open>WriteMeta\<close>: its result is the fetched body whether that write fails or not.
\<close>

lemma persist_fails_iff:
  "fst (persist e ok mk fr ttl w) = None \<longleftrightarrow> fails e 250 = None \<and> fails e 261 = None"
  by (cases "fails e 250"; cases "fails e 261") (simp_all add: persist_def PutObject_def WriteMeta_def)

lemma switchFetched_persist_error:
  assumes "\<not> notModified fr" "200 \<le> statusF fr" "statusF fr < 300"
    and "fails e 250 \<noteq> None \<or> fails e 261 \<noteq> None"
  shows "\<exists>err w4. switchFetched s e ok mk meta hasMeta fr w3 = (Err err, w4)"
  using assms persist_fails_iff [of e ok mk fr "TTLDefault s" w3]
  by (cases "persist e ok mk fr (TTLDefault s) w3") (auto simp: switchFetched_def)

lemma switchFetched_not_modified:
  assumes "notModified fr" and "hasMeta"
  shows "switchFetched s e ok mk meta hasMeta fr w3 =
     (Ok (ofKind kindServeCache), snd (WriteMeta e 140 mk (meta\<lparr>CachedAt := NowISO e 139\<rparr>) w3))"
  using assms by (simp add: switchFetched_def split: prod.splits)

lemma fetchAndStore_put_error:
  assumes "newRequest e u"
    and "roundTrip e u (if hasMeta then ETag meta else []) (if hasMeta then LastModified meta else []) = Inr resp"
    and "200 \<le> StatusCode resp" "StatusCode resp < 300" "Body resp = Inr bdy"
    and "fails e 134 = Some err"
  shows "fst (fetchAndStore s e ok mk u meta hasMeta w2) = Err err"
  using assms by (simp add: fetchAndStore_def Let_def PutObject_def)

lemma fetchAndStore_meta_error_ignored:
  assumes "newRequest e u"
    and "roundTrip e u (if hasMeta then ETag meta else []) (if hasMeta then LastModified meta else []) = Inr resp"
    and "200 \<le> StatusCode resp" "StatusCode resp < 300" "Body resp = Inr bdy"
    and "fails e 134 = None"
  shows "fst (fetchAndStore s e ok mk u meta hasMeta w2) =
     Ok \<lparr>kind = kindWroteBody, status = 0, body = bdy, contentType = Header resp ''Content-Type'',
         etag = Header resp ''ETag'', lastModified = Header resp ''Last-Modified''\<rparr>"
  using assms by (simp add: fetchAndStore_def Let_def PutObject_def split: prod.splits)

text \<open>
  C7 (fail-closed on persist failure), evaluated where the two handlers differ: a request
  for \<^verbatim>\<open>/example.com/a.txt\<close> on an empty store, to which the origin answers 200 with
  the body \<^verbatim>\<open>hello\<close>. When the write of the metadata fails, the handler that writes
  inline (its \<^verbatim>\<open>WriteMeta\<close> is at line 137) replies 200 with the fetched bytes and
  leaves the object without metadata, while the handler that calls \<^verbatim>\<open>persist\<close> (its
  \<^verbatim>\<open>WriteMeta\<close> is at line 261) replies 502. When the write of the object fails, both
  reply 502.
\<close>

theorem metadata_write_failure_serves_body:
  "fst (ServeHTTP defaultServer (failingAt 137 (originAnswers helloResponse)) ''/example.com/a.txt'' [] emptyWorld)
     = Replied \<lparr>code = 200,
                hdr = [(''Content-Type'', ''text/plain''), (''ETag'', ''x1''), (''Content-Length'', ''5'')],
                payload = ''hello''\<rparr>
   \<and> metas (snd (ServeHTTP defaultServer (failingAt 137 (originAnswers helloResponse))
                  ''/example.com/a.txt'' [] emptyWorld)) ''meta/example.com/a.txt.json'' = None
   \<and> fst (ServeHTTP defaultServer (failingAt 134 (originAnswers helloResponse)) ''/example.com/a.txt'' [] emptyWorld)
     = Replied (httpError ''upstream error: store unreachable'' 502)
   \<and> fst (ServeHTTP2 defaultServer (failingAt 261 (originAnswers helloResponse)) ''/example.com/a.txt'' [] emptyWorld)
     = Replied (httpError ''upstream error: store unreachable'' 502)
   \<and> fst (ServeHTTP2 defaultServer (failingAt 250 (originAnswers helloResponse)) ''/example.com/a.txt'' [] emptyWorld)
     = Replied (httpError ''upstream error: store unreachable'' 502)"
  by (simp add: run_defs run2_defs split_example)

end
